theory Spec2Isabelle
  imports Main
begin

section \<open>Data model (types.ts)\<close>

text \<open>
  \<^verbatim>\<open>Source\<close>: the optional fields \<^verbatim>\<open>name\<close>, \<^verbatim>\<open>enabled\<close> and \<^verbatim>\<open>is_healthy\<close> are
  options (\<open>None\<close> is JavaScript's \<^verbatim>\<open>undefined\<close>); \<^verbatim>\<open>uri\<close> and \<^verbatim>\<open>file_path\<close> are never
  read by the switcher modules and are left out. The field \<^verbatim>\<open>id\<close> is \<open>id_src\<close> here.
\<close>

record Source =
  id_src :: int
  name :: "string option"
  source_type :: string
  enabled :: "bool option"
  is_healthy :: "bool option"

record RotationScheduleItem =
  cameraId :: int
  durationSeconds :: int

text \<open>
  \<^verbatim>\<open>SwitcherState\<close> at its declared type. \<open>None\<close> is \<^verbatim>\<open>null\<close>. The schedule index is
  an array index: the code stores \<^verbatim>\<open>null\<close>, \<^verbatim>\<open>0\<close> or a remainder modulo the schedule
  length in it. The one other value it computes for it, the \<^verbatim>\<open>NaN\<close> of a remainder modulo
  zero, is the fault \<open>IndexNaN\<close> below; the object with fields of any shape, as the state
  file can fill it, is \<open>JsState\<close> below.
\<close>

record SwitcherState =
  rotationEnabled :: bool
  fixedSourceId :: "int option"
  selectedCameraIds :: "int list"
  rotationSchedule :: "RotationScheduleItem list"
  currentSourceId :: "int option"
  lastSwitchTime :: "string option"
  currentScheduleIndex :: "nat option"

text \<open>
  \<^verbatim>\<open>Partial<SwitcherState>\<close>, the body of \<^verbatim>\<open>PUT /api/state\<close> at its declared type:
  \<open>None\<close> is an absent key (\<^verbatim>\<open>undefined\<close>).
\<close>

record PartialState =
  p_rotationEnabled :: "bool option"
  p_fixedSourceId :: "int option option"
  p_selectedCameraIds :: "int list option"
  p_rotationSchedule :: "RotationScheduleItem list option"
  p_currentSourceId :: "int option option"
  p_lastSwitchTime :: "string option option"
  p_currentScheduleIndex :: "nat option option"

section \<open>JSON values\<close>

text \<open>
  The state file holds \<^verbatim>\<open>JSON.stringify(state, null, 2)\<close>. The text layer (printing and
  parsing) is the runtime's; the model works on the tree that \<^verbatim>\<open>JSON.parse\<close> returns.
  An object is its list of members, keys distinct as in a parsed object.
\<close>

datatype json =
    JNull
  | JBool bool
  | JNum int
  | JStr string
  | JArr "json list"
  | JObj "(string \<times> json) list"

definition item_json :: "RotationScheduleItem \<Rightarrow> json" where
  "item_json it =
     JObj [(''cameraId'', JNum (cameraId it)), (''durationSeconds'', JNum (durationSeconds it))]"

definition opt_json :: "('a \<Rightarrow> json) \<Rightarrow> 'a option \<Rightarrow> json" where
  "opt_json f v = (case v of None \<Rightarrow> JNull | Some x \<Rightarrow> f x)"

text \<open>\<^verbatim>\<open>JSON.stringify(state)\<close>: every field of the record, in declaration order.\<close>

definition stringify :: "SwitcherState \<Rightarrow> json" where
  "stringify s = JObj
     [(''rotationEnabled'', JBool (rotationEnabled s)),
      (''fixedSourceId'', opt_json JNum (fixedSourceId s)),
      (''selectedCameraIds'', JArr (map JNum (selectedCameraIds s))),
      (''rotationSchedule'', JArr (map item_json (rotationSchedule s))),
      (''currentSourceId'', opt_json JNum (currentSourceId s)),
      (''lastSwitchTime'', opt_json JStr (lastSwitchTime s)),
      (''currentScheduleIndex'', opt_json (\<lambda>i. JNum (int i)) (currentScheduleIndex s))]"




definition then_sum :: "'e + 'a \<Rightarrow> ('a \<Rightarrow> 'e + 'b) \<Rightarrow> 'e + 'b" where
  "then_sum r f = (case r of Inl e \<Rightarrow> Inl e | Inr x \<Rightarrow> f x)"

section \<open>State store (state.ts)\<close>

definition defaultState :: SwitcherState where
  "defaultState =
     \<lparr>rotationEnabled = False, fixedSourceId = None, selectedCameraIds = [],
      rotationSchedule = [], currentSourceId = None, lastSwitchTime = None,
      currentScheduleIndex = None\<rparr>"

text \<open>What \<^verbatim>\<open>Deno.readTextFile(STATE_FILE)\<close> followed by \<^verbatim>\<open>JSON.parse\<close> meets.\<close>

datatype file_content = Unparsable | Parsed json

text \<open>
  A call of \<^verbatim>\<open>processRotation\<close> suspended at \<^verbatim>\<open>await switchToSource(...)\<close>: in
  \<^verbatim>\<open>handleFixedSource\<close> (the source id), or in the schedule branch (the locals
  \<^verbatim>\<open>cameraId\<close> and \<^verbatim>\<open>duration\<close>, which the rest of the call still reads).
\<close>

datatype pending_call = FixedSwitch int | RotationSwitch int int

text \<open>
  The process and the part of its environment that the switcher reads and writes:
  the global \<^verbatim>\<open>state\<close>, the state file, whether the file system accepts a write, the
  wall clock as \<^verbatim>\<open>new Date().toISOString()\<close> prints it, the number of
  \<^verbatim>\<open>stateEvents.emit("stateChanged")\<close> calls made, the scheduler's \<^verbatim>\<open>currentTimer\<close>
  and \<^verbatim>\<open>shouldStop\<close>, the runtime's table of pending timeouts (handle and delay in
  milliseconds, \<open>None\<close> for a delay the runtime does not keep as given), the next handle \<^verbatim>\<open>setTimeout\<close> returns, the source ids sent to the
  pipeline in \<^verbatim>\<open>PUT /source/active\<close> requests, and the calls of \<^verbatim>\<open>processRotation\<close>
  that wait for the pipeline's answer.
\<close>

record world =
  state :: SwitcherState
  stateFile :: "file_content option"
  fsWritable :: bool
  clock :: string
  emitted :: nat
  currentTimer :: "nat option"
  shouldStop :: bool
  timeouts :: "(nat \<times> int option) list"
  nextHandle :: nat
  switchRequests :: "int list"
  inflight :: "pending_call list"








text \<open>
  \<^verbatim>\<open>saveState(emitEvent)\<close>. The write and the emit share one \<^verbatim>\<open>try\<close> block: a write that
  throws skips the emit and is logged. \<^verbatim>\<open>emit\<close> calls the registered listeners one after
  the other before it returns; \<open>listeners\<close> is their combined effect.
\<close>

definition saveState :: "(world \<Rightarrow> world) \<Rightarrow> bool \<Rightarrow> world \<Rightarrow> world" where
  "saveState listeners emitEvent w =
     (if fsWritable w then
        (let w1 = w\<lparr>stateFile := Some (Parsed (stringify (state w)))\<rparr>
         in if emitEvent then listeners (w1\<lparr>emitted := emitted w1 + 1\<rparr>) else w1)
      else w)"

section \<open>Pipeline client (pipeline.ts)\<close>

text \<open>
  How the \<^verbatim>\<open>fetch\<close> of \<^verbatim>\<open>PUT /source/active\<close> ends: a response with \<^verbatim>\<open>response.ok\<close>,
  a response without it, or an exception (transport error, timeout).
\<close>

datatype reply = ResponseOk | ResponseNotOk | FetchThrew

text \<open>
  \<^verbatim>\<open>switchToSource\<close> in its two halves, before and after \<^verbatim>\<open>await fetch(...)\<close>: the
  request leaves, and the answer is handled. The result is the new world and the boolean
  the function returns. The source name is only printed. \<^verbatim>\<open>notifyCameraAPI\<close> posts to
  another service and reads and writes none of the fields of \<open>world\<close>.
\<close>

definition sendSwitch :: "int \<Rightarrow> world \<Rightarrow> world" where
  "sendSwitch sourceId w = w\<lparr>switchRequests := switchRequests w @ [sourceId]\<rparr>"

definition finishSwitch :: "int \<Rightarrow> reply \<Rightarrow> world \<Rightarrow> world \<times> bool" where
  "finishSwitch sourceId r w =
     (case r of
        ResponseOk \<Rightarrow>
          (saveState (\<lambda>x. x) False
             (w\<lparr>state := (state w)\<lparr>currentSourceId := Some sourceId,
                                     lastSwitchTime := Some (clock w)\<rparr>\<rparr>),
           True)
      | ResponseNotOk \<Rightarrow> (w, False)
      | FetchThrew \<Rightarrow> (w, False))"

definition switchToSource :: "int \<Rightarrow> reply \<Rightarrow> world \<Rightarrow> world \<times> bool" where
  "switchToSource sourceId r w = finishSwitch sourceId r (sendSwitch sourceId w)"

section \<open>Rotation (rotation.ts)\<close>

definition clearTimeout :: "nat \<Rightarrow> world \<Rightarrow> world" where
  "clearTimeout h w = w\<lparr>timeouts := filter (\<lambda>t. fst t \<noteq> h) (timeouts w)\<rparr>"

text \<open>
  The delay of a timeout is a 32-bit value in the runtime: a delay from 1 to
  2147483647 milliseconds is kept as given, any other is replaced by the runtime, and
  the table then holds \<open>None\<close>: the model does not say when such a timeout fires. The
  argument \<^verbatim>\<open>duration * 1000\<close> is a product of doubles in the program; for an integer
  duration it is exact wherever it lies in the range that is kept, and a product outside
  that range stays outside it when rounded.
\<close>

definition keptDelay :: "int \<Rightarrow> int option" where
  "keptDelay ms = (if 1 \<le> ms \<and> ms \<le> 2147483647 then Some ms else None)"

definition setTimeout :: "int \<Rightarrow> world \<Rightarrow> world \<times> nat" where
  "setTimeout ms w =
     (w\<lparr>timeouts := timeouts w @ [(nextHandle w, keptDelay ms)],
        nextHandle := Suc (nextHandle w)\<rparr>,
      nextHandle w)"

definition cancelCurrentTimer :: "world \<Rightarrow> world" where
  "cancelCurrentTimer w =
     (case currentTimer w of
        None \<Rightarrow> w
      | Some h \<Rightarrow> (clearTimeout h w)\<lparr>currentTimer := None\<rparr>)"

definition getAvailableSources :: "SwitcherState \<Rightarrow> Source list \<Rightarrow> Source list" where
  "getAvailableSources s sources =
     (let availableSources =
            filter (\<lambda>x. enabled x = Some True \<and> source_type x = ''srt'') sources
      in if length (selectedCameraIds s) > 0
         then filter (\<lambda>x. id_src x \<in> set (selectedCameraIds s)) availableSources
         else availableSources)"

definition handleFixedSource :: "Source list \<Rightarrow> reply \<Rightarrow> world \<Rightarrow> world" where
  "handleFixedSource sources r w =
     (case fixedSourceId (state w) of
        None \<Rightarrow> w
      | Some fid \<Rightarrow>
          (case find (\<lambda>x. id_src x = fid) sources of
             None \<Rightarrow> w
           | Some fixedSource \<Rightarrow>
               if enabled fixedSource = Some True then
                 (if currentSourceId (state w) \<noteq> Some fid
                  then fst (switchToSource fid r w)
                  else w)
               else w))"

text \<open>
  \<^verbatim>\<open>state.currentScheduleIndex\<close> used as a number: \<^verbatim>\<open>null\<close> converts to \<^verbatim>\<open>0\<close>.
\<close>

definition indexNumber :: "nat option \<Rightarrow> nat" where
  "indexNumber i = (case i of None \<Rightarrow> 0 | Some n \<Rightarrow> n)"

text \<open>
  \<^verbatim>\<open>(state.currentScheduleIndex + 1) % state.rotationSchedule.length\<close>, on a schedule that
  is not empty.
\<close>

definition nextIndex :: "SwitcherState \<Rightarrow> nat" where
  "nextIndex s = (indexNumber (currentScheduleIndex s) + 1) mod length (rotationSchedule s)"

text \<open>
  \<^verbatim>\<open>currentTimer = setTimeout(() => { currentTimer = null; processRotation(...) }, ms)\<close>:
  the timeout enters the runtime's table and its handle is stored.
\<close>

definition armTimer :: "int \<Rightarrow> world \<Rightarrow> world" where
  "armTimer ms w = (case setTimeout ms w of (w1, h) \<Rightarrow> w1\<lparr>currentTimer := Some h\<rparr>)"

text \<open>
  \<^verbatim>\<open>processRotation\<close>, run from its first line to its last with nothing else running in
  between; \<open>r\<close> is the pipeline's answer to the switch request, if the call makes one.
  The schedule is not empty where the item is read, so the read is in range.
\<close>

definition processRotation :: "Source list \<Rightarrow> reply \<Rightarrow> world \<Rightarrow> world" where
  "processRotation sources r w =
     (if shouldStop w then w
      else
        let w1 = cancelCurrentTimer w in
        if \<not> rotationEnabled (state w1) then
          (let w2 = (if currentScheduleIndex (state w1) \<noteq> None
                     then saveState (\<lambda>x. x) False
                            (w1\<lparr>state := (state w1)\<lparr>currentScheduleIndex := None\<rparr>\<rparr>)
                     else w1)
           in handleFixedSource sources r w2)
        else if length (rotationSchedule (state w1)) = 0 then w1
        else
          (let w2 = (if currentScheduleIndex (state w1) = None
                        \<or> indexNumber (currentScheduleIndex (state w1))
                             \<ge> length (rotationSchedule (state w1))
                     then saveState (\<lambda>x. x) False
                            (w1\<lparr>state := (state w1)\<lparr>currentScheduleIndex := Some 0\<rparr>\<rparr>)
                     else w1);
               scheduleItem = rotationSchedule (state w2)
                   ! (indexNumber (currentScheduleIndex (state w2))
                        mod length (rotationSchedule (state w2)));
               availableSources = getAvailableSources (state w2) sources
           in case find (\<lambda>x. id_src x = cameraId scheduleItem) availableSources of
                Some source \<Rightarrow>
                  (let w3 = fst (switchToSource (cameraId scheduleItem) r w2);
                       w4 = saveState (\<lambda>x. x) False w3;
                       w5 = w4\<lparr>state := (state w4)\<lparr>currentScheduleIndex :=
                                                      Some (nextIndex (state w4))\<rparr>\<rparr>
                   in armTimer (durationSeconds scheduleItem * 1000) w5)
              | None \<Rightarrow>
                  (let w3 = w2\<lparr>state := (state w2)\<lparr>currentScheduleIndex :=
                                                      Some (nextIndex (state w2))\<rparr>\<rparr>;
                       w4 = saveState (\<lambda>x. x) False w3
                   in armTimer 5000 w4)))"

definition handleStateChange :: "Source list \<Rightarrow> reply \<Rightarrow> world \<Rightarrow> world" where
  "handleStateChange sources r w = processRotation sources r (cancelCurrentTimer w)"

text \<open>
  The runtime fires the pending timeout \<open>h\<close>: it leaves the table and its callback
  runs. A handle that is not pending fires nothing.
\<close>

definition timerFired :: "Source list \<Rightarrow> reply \<Rightarrow> nat \<Rightarrow> world \<Rightarrow> world" where
  "timerFired sources r h w =
     (if h \<in> fst ` set (timeouts w)
      then processRotation sources r ((clearTimeout h w)\<lparr>currentTimer := None\<rparr>)
      else w)"

section \<open>Control API (api.ts)\<close>

text \<open>
  The schedule replacement shared by \<^verbatim>\<open>PUT /api/state\<close> and
  \<^verbatim>\<open>PUT /api/rotation/schedule\<close>.
\<close>

definition replaceSchedule :: "RotationScheduleItem list \<Rightarrow> SwitcherState \<Rightarrow> SwitcherState" where
  "replaceSchedule schedule s =
     (let oldScheduleLength = length (rotationSchedule s);
          s1 = s\<lparr>rotationSchedule := schedule\<rparr>
      in case currentScheduleIndex s1 of
           None \<Rightarrow> s1
         | Some i \<Rightarrow>
             if oldScheduleLength \<noteq> length schedule \<or> i \<ge> length schedule
             then s1\<lparr>currentScheduleIndex := (if length schedule > 0 then Some 0 else None)\<rparr>
             else s1)"

text \<open>
  The fields \<^verbatim>\<open>PUT /api/state\<close> copies from the body; the three operational members of
  the body are not read.
\<close>

definition applyBody :: "PartialState \<Rightarrow> SwitcherState \<Rightarrow> SwitcherState" where
  "applyBody body s =
     (let s1 = (case p_rotationEnabled body of None \<Rightarrow> s
                | Some v \<Rightarrow> s\<lparr>rotationEnabled := v\<rparr>);
          s2 = (case p_fixedSourceId body of None \<Rightarrow> s1
                | Some v \<Rightarrow> s1\<lparr>fixedSourceId := v\<rparr>);
          s3 = (case p_selectedCameraIds body of None \<Rightarrow> s2
                | Some v \<Rightarrow> s2\<lparr>selectedCameraIds := v\<rparr>);
          s4 = (case p_rotationSchedule body of None \<Rightarrow> s3
                | Some v \<Rightarrow> replaceSchedule v s3)
      in s4)"

text \<open>
  The three routes that write configuration, for an authenticated request whose body
  parsed. Each ends in \<^verbatim>\<open>await saveState()\<close>, with the default \<^verbatim>\<open>emitEvent = true\<close>.
\<close>

datatype api_call =
    PutState PartialState
  | PutSchedule "RotationScheduleItem list"
  | PutCameras "int list"

fun applyCall :: "api_call \<Rightarrow> SwitcherState \<Rightarrow> SwitcherState" where
  "applyCall (PutState body) s = applyBody body s"
| "applyCall (PutSchedule schedule) s = replaceSchedule schedule s"
| "applyCall (PutCameras cameraIds) s = s\<lparr>selectedCameraIds := cameraIds\<rparr>"

definition handleAPIRequest :: "(world \<Rightarrow> world) \<Rightarrow> api_call \<Rightarrow> world \<Rightarrow> world" where
  "handleAPIRequest listeners c w =
     saveState listeners True (w\<lparr>state := applyCall c (state w)\<rparr>)"

section \<open>The calls as the event loop runs them\<close>

text \<open>
  An \<^verbatim>\<open>async\<close> function runs up to its first pending \<^verbatim>\<open>await\<close> and gives the event
  loop back; the rest runs when the awaited promise settles, and requests and timeouts
  that arrive in between run first. The suspension modelled here is the one at
  \<^verbatim>\<open>await switchToSource(...)\<close>, which lasts as long as the pipeline takes to answer (up
  to the 5 s transport timeout); a file write is taken to finish with nothing running in
  between.
\<close>

definition handleFixedSource_begin :: "Source list \<Rightarrow> world \<Rightarrow> world \<times> pending_call option"
  where
  "handleFixedSource_begin sources w =
     (case fixedSourceId (state w) of
        None \<Rightarrow> (w, None)
      | Some fid \<Rightarrow>
          (case find (\<lambda>x. id_src x = fid) sources of
             None \<Rightarrow> (w, None)
           | Some fixedSource \<Rightarrow>
               if enabled fixedSource = Some True then
                 (if currentSourceId (state w) \<noteq> Some fid
                  then (sendSwitch fid w, Some (FixedSwitch fid))
                  else (w, None))
               else (w, None)))"

text \<open>\<^verbatim>\<open>processRotation\<close> from its first line to the switch request, or to its end.\<close>

definition processRotation_begin :: "Source list \<Rightarrow> world \<Rightarrow> world \<times> pending_call option"
  where
  "processRotation_begin sources w =
     (if shouldStop w then (w, None)
      else
        let w1 = cancelCurrentTimer w in
        if \<not> rotationEnabled (state w1) then
          (let w2 = (if currentScheduleIndex (state w1) \<noteq> None
                     then saveState (\<lambda>x. x) False
                            (w1\<lparr>state := (state w1)\<lparr>currentScheduleIndex := None\<rparr>\<rparr>)
                     else w1)
           in handleFixedSource_begin sources w2)
        else if length (rotationSchedule (state w1)) = 0 then (w1, None)
        else
          (let w2 = (if currentScheduleIndex (state w1) = None
                        \<or> indexNumber (currentScheduleIndex (state w1))
                             \<ge> length (rotationSchedule (state w1))
                     then saveState (\<lambda>x. x) False
                            (w1\<lparr>state := (state w1)\<lparr>currentScheduleIndex := Some 0\<rparr>\<rparr>)
                     else w1);
               scheduleItem = rotationSchedule (state w2)
                   ! (indexNumber (currentScheduleIndex (state w2))
                        mod length (rotationSchedule (state w2)));
               availableSources = getAvailableSources (state w2) sources
           in case find (\<lambda>x. id_src x = cameraId scheduleItem) availableSources of
                Some source \<Rightarrow>
                  (sendSwitch (cameraId scheduleItem) w2,
                   Some (RotationSwitch (cameraId scheduleItem) (durationSeconds scheduleItem)))
              | None \<Rightarrow>
                  (let w3 = w2\<lparr>state := (state w2)\<lparr>currentScheduleIndex :=
                                                      Some (nextIndex (state w2))\<rparr>\<rparr>;
                       w4 = saveState (\<lambda>x. x) False w3
                   in (armTimer 5000 w4, None))))"

text \<open>
  With the schedule emptied while the call was suspended, the remainder is taken modulo
  \<^verbatim>\<open>0\<close> and the index becomes \<^verbatim>\<open>NaN\<close>, which the index type does not hold.
\<close>

datatype fault = IndexNaN

text \<open>The rest of a suspended call, run when the pipeline has answered with \<open>r\<close>.\<close>

fun processRotation_resume :: "pending_call \<Rightarrow> reply \<Rightarrow> world \<Rightarrow> fault + world" where
  "processRotation_resume (FixedSwitch fid) r w = Inr (fst (finishSwitch fid r w))"
| "processRotation_resume (RotationSwitch cam duration) r w =
     (let w3 = fst (finishSwitch cam r w);
          w4 = saveState (\<lambda>x. x) False w3
      in if length (rotationSchedule (state w4)) = 0 then Inl IndexNaN
         else Inr (armTimer (duration * 1000)
                     (w4\<lparr>state := (state w4)\<lparr>currentScheduleIndex :=
                                                 Some (nextIndex (state w4))\<rparr>\<rparr>)))"

definition suspend :: "world \<times> pending_call option \<Rightarrow> world" where
  "suspend p =
     (case p of
        (w, None) \<Rightarrow> w
      | (w, Some c) \<Rightarrow> w\<lparr>inflight := inflight w @ [c]\<rparr>)"

text \<open>
  The listener \<^verbatim>\<open>runRotationLoop\<close> registers, as far as it runs inside \<^verbatim>\<open>emit\<close>:
  \<^verbatim>\<open>handleStateChange\<close> does not await the promise of \<^verbatim>\<open>processRotation\<close>.
\<close>

definition stateChangeHandler :: "Source list \<Rightarrow> world \<Rightarrow> world" where
  "stateChangeHandler sources w =
     suspend (processRotation_begin sources (cancelCurrentTimer w))"

text \<open>
  What the event loop can run next: an API request, a pending timeout, or the answer
  to the \<open>n\<close>-th switch request in flight.
\<close>

datatype event = Request api_call | Expired nat | Replied nat reply

fun step :: "Source list \<Rightarrow> event \<Rightarrow> world \<Rightarrow> fault + world" where
  "step sources (Request c) w = Inr (handleAPIRequest (stateChangeHandler sources) c w)"
| "step sources (Expired h) w =
     (if h \<in> fst ` set (timeouts w)
      then Inr (suspend (processRotation_begin sources
                           ((clearTimeout h w)\<lparr>currentTimer := None\<rparr>)))
      else Inr w)"
| "step sources (Replied n r) w =
     (if n < length (inflight w)
      then processRotation_resume (inflight w ! n) r
             (w\<lparr>inflight := take n (inflight w) @ drop (Suc n) (inflight w)\<rparr>)
      else Inr w)"

fun run :: "Source list \<Rightarrow> event list \<Rightarrow> world \<Rightarrow> fault + world" where
  "run sources [] w = Inr w"
| "run sources (e # es) w = then_sum (step sources e w) (run sources es)"

section \<open>Atomic runs\<close>

text \<open>
  The same calls when none overlaps another: each API request, timeout and manual switch
  runs to its end, the answer \<open>r\<close> of the pipeline included, before the next starts.
  \<open>Switch\<close> is the call of \<^verbatim>\<open>switchToSource\<close> that \<^verbatim>\<open>PUT /api/source/active\<close> makes.
\<close>

datatype action = Configure api_call reply | Fire nat reply | Switch int reply

fun perform :: "Source list \<Rightarrow> action \<Rightarrow> world \<Rightarrow> world" where
  "perform sources (Configure c r) w = handleAPIRequest (handleStateChange sources r) c w"
| "perform sources (Fire h r) w = timerFired sources r h w"
| "perform sources (Switch sourceId r) w = fst (switchToSource sourceId r w)"

fun isConfigure :: "action \<Rightarrow> bool" where
  "isConfigure (Configure c r) = True"
| "isConfigure _ = False"

section \<open>Notions the properties are stated with\<close>




text \<open>The state file holds the state as \<^verbatim>\<open>saveState\<close> writes it.\<close>

definition persisted :: "world \<Rightarrow> bool" where
  "persisted w = (stateFile w = Some (Parsed (stringify (state w))))"

text \<open>
  The index a re-evaluation works with, after its reset of a \<^verbatim>\<open>null\<close> or out-of-range
  index, and the schedule item at it.
\<close>

definition effectiveIndex :: "SwitcherState \<Rightarrow> nat" where
  "effectiveIndex s =
     (case currentScheduleIndex s of
        None \<Rightarrow> 0
      | Some i \<Rightarrow> if i \<ge> length (rotationSchedule s) then 0 else i)"

definition currentItem :: "SwitcherState \<Rightarrow> RotationScheduleItem" where
  "currentItem s = rotationSchedule s ! effectiveIndex s"

text \<open>
  The three writes of \<^verbatim>\<open>currentScheduleIndex\<close> in \<^verbatim>\<open>processRotation\<close>, named so that
  its branches can be written down: the clearing when rotation is disabled (with its
  save), the reset of a \<^verbatim>\<open>null\<close> or out-of-range index (with its save), and the advance.
\<close>

definition clearIndex :: "world \<Rightarrow> world" where
  "clearIndex w =
     (if currentScheduleIndex (state w) \<noteq> None
      then saveState (\<lambda>x. x) False (w\<lparr>state := (state w)\<lparr>currentScheduleIndex := None\<rparr>\<rparr>)
      else w)"

definition resetIndex :: "world \<Rightarrow> world" where
  "resetIndex w =
     (if currentScheduleIndex (state w) = None
         \<or> indexNumber (currentScheduleIndex (state w)) \<ge> length (rotationSchedule (state w))
      then saveState (\<lambda>x. x) False (w\<lparr>state := (state w)\<lparr>currentScheduleIndex := Some 0\<rparr>\<rparr>)
      else w)"

definition advanceIndex :: "world \<Rightarrow> world" where
  "advanceIndex w = w\<lparr>state := (state w)\<lparr>currentScheduleIndex := Some (nextIndex (state w))\<rparr>\<rparr>"

text \<open>The camera is found among the available sources.\<close>

definition resolves :: "SwitcherState \<Rightarrow> Source list \<Rightarrow> int \<Rightarrow> bool" where
  "resolves s sources cam =
     (find (\<lambda>x. id_src x = cam) (getAvailableSources s sources) \<noteq> None)"

text \<open>The invariant of \<^verbatim>\<open>currentScheduleIndex\<close>.\<close>

definition indexInvariant :: "SwitcherState \<Rightarrow> bool" where
  "indexInvariant s =
     (if \<not> rotationEnabled s \<or> rotationSchedule s = [] then currentScheduleIndex s = None
      else (case currentScheduleIndex s of
              None \<Rightarrow> False
            | Some i \<Rightarrow> i < length (rotationSchedule s)))"

text \<open>
  The timer discipline: the pending timeouts are exactly the one \<^verbatim>\<open>currentTimer\<close>
  names, or none.
\<close>

definition timerDiscipline :: "world \<Rightarrow> bool" where
  "timerDiscipline w =
     (case currentTimer w of
        None \<Rightarrow> timeouts w = []
      | Some h \<Rightarrow> map fst (timeouts w) = [h])"

section \<open>Scenarios\<close>

definition camera :: "int \<Rightarrow> bool \<Rightarrow> bool \<Rightarrow> Source" where
  "camera n en healthy =
     \<lparr>id_src = n, name = None, source_type = ''srt'', enabled = Some en,
      is_healthy = Some healthy\<rparr>"

definition startWorld :: "SwitcherState \<Rightarrow> world" where
  "startWorld s =
     \<lparr>state = s, stateFile = None, fsWritable = True, clock = ''2026-01-01T00:00:00.000Z'',
      emitted = 0, currentTimer = None, shouldStop = False, timeouts = [], nextHandle = 0,
      switchRequests = [], inflight = []\<rparr>"

definition noFields :: PartialState where
  "noFields =
     \<lparr>p_rotationEnabled = None, p_fixedSourceId = None, p_selectedCameraIds = None,
      p_rotationSchedule = None, p_currentSourceId = None, p_lastSwitchTime = None,
      p_currentScheduleIndex = None\<rparr>"

text \<open>Scenario A: schedule \<open>[{1,60},{2,120}]\<close>, rotation enabled, both cameras healthy.\<close>

definition scheduleA :: "RotationScheduleItem list" where
  "scheduleA = [\<lparr>cameraId = 1, durationSeconds = 60\<rparr>, \<lparr>cameraId = 2, durationSeconds = 120\<rparr>]"

definition stateA :: SwitcherState where
  "stateA = defaultState\<lparr>rotationEnabled := True, rotationSchedule := scheduleA\<rparr>"

definition camerasA :: "Source list" where
  "camerasA = [camera 1 True True, camera 2 True True]"

text \<open>Scenario B: rotation disabled, fixed source 5 enabled, source 3 on air.\<close>

definition stateB :: SwitcherState where
  "stateB = defaultState\<lparr>fixedSourceId := Some 5, currentSourceId := Some 3\<rparr>"

definition camerasB :: "Source list" where
  "camerasB = [camera 3 True True, camera 5 True True]"

text \<open>Scenario C: schedule \<open>[{9,30}]\<close>, camera 9 disabled.\<close>

definition stateC :: SwitcherState where
  "stateC = defaultState\<lparr>rotationEnabled := True,
                         rotationSchedule := [\<lparr>cameraId = 9, durationSeconds = 30\<rparr>]\<rparr>"

definition camerasC :: "Source list" where
  "camerasC = [camera 9 False True]"

text \<open>Scenario A with camera 1 enabled and reported unhealthy by the pipeline.\<close>

definition camerasUnhealthy :: "Source list" where
  "camerasUnhealthy = [camera 1 True False, camera 2 True True]"

text \<open>
  Scenario A after its first re-evaluation: camera 1 on air, index 1, timeout 0 pending
  for 60 s. Then, as the event loop runs them: the timeout expires and the re-evaluation
  asks the pipeline for camera 2; before the pipeline answers, a \<^verbatim>\<open>PUT /api/state\<close>
  arrives; then the pipeline answers the first request, and then the second.
\<close>

definition runningA :: world where
  "runningA = processRotation camerasA ResponseOk (startWorld stateA)"

definition overlap :: "event list" where
  "overlap =
     [Expired 0,
      Request (PutState (noFields\<lparr>p_selectedCameraIds := Some [1, 2]\<rparr>)),
      Replied 0 ResponseOk,
      Replied 0 ResponseOk]"



text \<open>
  Rotation disabled by a \<^verbatim>\<open>PUT /api/state\<close> while the switch request of the timer's
  re-evaluation is in flight.
\<close>

definition disabledUnderSwitch :: "event list" where
  "disabledUnderSwitch =
     [Expired 0,
      Request (PutState (noFields\<lparr>p_rotationEnabled := Some False\<rparr>)),
      Replied 0 ResponseOk]"

text \<open>
  After the overlap, rotation is disabled with source 1 as the fixed source, by a request
  that nothing overlaps: its re-evaluation switches to source 1 and is answered at once.
\<close>

definition fixedAfterOverlap :: "event list" where
  "fixedAfterOverlap =
     overlap @
     [Request (PutState (noFields\<lparr>p_rotationEnabled := Some False,
                                  p_fixedSourceId := Some (Some 1)\<rparr>)),
      Replied 0 ResponseOk]"

text \<open>
  Rotation disabled with source 1, which is on air, as the fixed source, by a request
  that arrives while the switch request of the timer's re-evaluation is in flight.
\<close>

definition fixedUnderSwitch :: "event list" where
  "fixedUnderSwitch =
     [Expired 0,
      Request (PutState (noFields\<lparr>p_rotationEnabled := Some False,
                                  p_fixedSourceId := Some (Some 1)\<rparr>)),
      Replied 0 ResponseOk]"

text \<open>
  Scenario A before rotation is enabled, and the \<^verbatim>\<open>PUT /api/state\<close> that enables it, with
  the file system refusing the write.
\<close>

definition idleA :: world where
  "idleA = startWorld (stateA\<lparr>rotationEnabled := False\<rparr>)"

definition enableRotation :: api_call where
  "enableRotation = PutState (noFields\<lparr>p_rotationEnabled := Some True\<rparr>)"

definition disableRotation :: api_call where
  "disableRotation = PutState (noFields\<lparr>p_rotationEnabled := Some False\<rparr>)"


section \<open>Basic facts\<close>

lemma saveState_quiet [simp]:
  "state (saveState L False w) = state w"
  "emitted (saveState L False w) = emitted w"
  "timeouts (saveState L False w) = timeouts w"
  "currentTimer (saveState L False w) = currentTimer w"
  "nextHandle (saveState L False w) = nextHandle w"
  "shouldStop (saveState L False w) = shouldStop w"
  "switchRequests (saveState L False w) = switchRequests w"
  "fsWritable (saveState L False w) = fsWritable w"
  "clock (saveState L False w) = clock w"
  "inflight (saveState L False w) = inflight w"
  "stateFile (saveState L False w) =
     (if fsWritable w then Some (Parsed (stringify (state w))) else stateFile w)"
  by (simp_all add: saveState_def Let_def)

lemma keptDelay_in_range [simp]:
  "1 \<le> ms \<Longrightarrow> ms \<le> 2147483647 \<Longrightarrow> keptDelay ms = Some ms"
  by (simp add: keptDelay_def)

lemma keptDelay_seconds:
  "0 < d \<Longrightarrow> d \<le> 2147483 \<Longrightarrow> keptDelay (d * 1000) = Some (d * 1000)"
  by (simp add: keptDelay_def)

section \<open>Persisting and reloading\<close>















section \<open>What each operation leaves alone\<close>

lemma cancelCurrentTimer_fields [simp]:
  "state (cancelCurrentTimer w) = state w"
  "emitted (cancelCurrentTimer w) = emitted w"
  "stateFile (cancelCurrentTimer w) = stateFile w"
  "fsWritable (cancelCurrentTimer w) = fsWritable w"
  "clock (cancelCurrentTimer w) = clock w"
  "shouldStop (cancelCurrentTimer w) = shouldStop w"
  "nextHandle (cancelCurrentTimer w) = nextHandle w"
  "switchRequests (cancelCurrentTimer w) = switchRequests w"
  "inflight (cancelCurrentTimer w) = inflight w"
  "currentTimer (cancelCurrentTimer w) = None"
  by (simp_all add: cancelCurrentTimer_def clearTimeout_def split: option.splits)

lemma cancelCurrentTimer_idem [simp]:
  "cancelCurrentTimer (cancelCurrentTimer w) = cancelCurrentTimer w"
  by (simp add: cancelCurrentTimer_def split: option.splits)

lemma armTimer_fields [simp]:
  "state (armTimer ms w) = state w"
  "emitted (armTimer ms w) = emitted w"
  "stateFile (armTimer ms w) = stateFile w"
  "fsWritable (armTimer ms w) = fsWritable w"
  "clock (armTimer ms w) = clock w"
  "shouldStop (armTimer ms w) = shouldStop w"
  "switchRequests (armTimer ms w) = switchRequests w"
  "inflight (armTimer ms w) = inflight w"
  "nextHandle (armTimer ms w) = Suc (nextHandle w)"
  "currentTimer (armTimer ms w) = Some (nextHandle w)"
  "timeouts (armTimer ms w) = timeouts w @ [(nextHandle w, keptDelay ms)]"
  by (simp_all add: armTimer_def setTimeout_def)

lemma sendSwitch_fields [simp]:
  "state (sendSwitch i w) = state w"
  "emitted (sendSwitch i w) = emitted w"
  "stateFile (sendSwitch i w) = stateFile w"
  "fsWritable (sendSwitch i w) = fsWritable w"
  "clock (sendSwitch i w) = clock w"
  "shouldStop (sendSwitch i w) = shouldStop w"
  "nextHandle (sendSwitch i w) = nextHandle w"
  "currentTimer (sendSwitch i w) = currentTimer w"
  "timeouts (sendSwitch i w) = timeouts w"
  "inflight (sendSwitch i w) = inflight w"
  "switchRequests (sendSwitch i w) = switchRequests w @ [i]"
  by (simp_all add: sendSwitch_def)

lemma finishSwitch_fields [simp]:
  "emitted (fst (finishSwitch i r w)) = emitted w"
  "fsWritable (fst (finishSwitch i r w)) = fsWritable w"
  "clock (fst (finishSwitch i r w)) = clock w"
  "shouldStop (fst (finishSwitch i r w)) = shouldStop w"
  "nextHandle (fst (finishSwitch i r w)) = nextHandle w"
  "currentTimer (fst (finishSwitch i r w)) = currentTimer w"
  "timeouts (fst (finishSwitch i r w)) = timeouts w"
  "inflight (fst (finishSwitch i r w)) = inflight w"
  "switchRequests (fst (finishSwitch i r w)) = switchRequests w"
  by (simp_all add: finishSwitch_def split: reply.splits)

lemma finishSwitch_state:
  "state (fst (finishSwitch i r w)) =
     (if r = ResponseOk
      then (state w)\<lparr>currentSourceId := Some i, lastSwitchTime := Some (clock w)\<rparr>
      else state w)"
  by (simp add: finishSwitch_def split: reply.splits)

lemma switchToSource_fields [simp]:
  "emitted (fst (switchToSource i r w)) = emitted w"
  "fsWritable (fst (switchToSource i r w)) = fsWritable w"
  "clock (fst (switchToSource i r w)) = clock w"
  "shouldStop (fst (switchToSource i r w)) = shouldStop w"
  "nextHandle (fst (switchToSource i r w)) = nextHandle w"
  "currentTimer (fst (switchToSource i r w)) = currentTimer w"
  "timeouts (fst (switchToSource i r w)) = timeouts w"
  "inflight (fst (switchToSource i r w)) = inflight w"
  "switchRequests (fst (switchToSource i r w)) = switchRequests w @ [i]"
  by (simp_all add: switchToSource_def)

lemma switchToSource_state:
  "state (fst (switchToSource i r w)) =
     (if r = ResponseOk
      then (state w)\<lparr>currentSourceId := Some i, lastSwitchTime := Some (clock w)\<rparr>
      else state w)"
  by (simp add: switchToSource_def finishSwitch_state)

lemma switchToSource_result: "snd (switchToSource i r w) = (r = ResponseOk)"
  by (simp add: switchToSource_def finishSwitch_def split: reply.splits)

lemma handleFixedSource_fields [simp]:
  "emitted (handleFixedSource sources r w) = emitted w"
  "fsWritable (handleFixedSource sources r w) = fsWritable w"
  "clock (handleFixedSource sources r w) = clock w"
  "shouldStop (handleFixedSource sources r w) = shouldStop w"
  "nextHandle (handleFixedSource sources r w) = nextHandle w"
  "currentTimer (handleFixedSource sources r w) = currentTimer w"
  "timeouts (handleFixedSource sources r w) = timeouts w"
  "inflight (handleFixedSource sources r w) = inflight w"
  by (simp_all add: handleFixedSource_def split: option.splits)

lemma clearIndex_fields [simp]:
  "emitted (clearIndex w) = emitted w"
  "fsWritable (clearIndex w) = fsWritable w"
  "clock (clearIndex w) = clock w"
  "shouldStop (clearIndex w) = shouldStop w"
  "nextHandle (clearIndex w) = nextHandle w"
  "currentTimer (clearIndex w) = currentTimer w"
  "timeouts (clearIndex w) = timeouts w"
  "inflight (clearIndex w) = inflight w"
  "switchRequests (clearIndex w) = switchRequests w"
  "state (clearIndex w) = (state w)\<lparr>currentScheduleIndex := None\<rparr>"
  by (simp_all add: clearIndex_def)

lemma resetIndex_fields [simp]:
  "emitted (resetIndex w) = emitted w"
  "fsWritable (resetIndex w) = fsWritable w"
  "clock (resetIndex w) = clock w"
  "shouldStop (resetIndex w) = shouldStop w"
  "nextHandle (resetIndex w) = nextHandle w"
  "currentTimer (resetIndex w) = currentTimer w"
  "timeouts (resetIndex w) = timeouts w"
  "inflight (resetIndex w) = inflight w"
  "switchRequests (resetIndex w) = switchRequests w"
  by (simp_all add: resetIndex_def)

lemma resetIndex_state:
  "state (resetIndex w) = (state w)\<lparr>currentScheduleIndex := Some (effectiveIndex (state w))\<rparr>"
  by (auto simp add: resetIndex_def effectiveIndex_def indexNumber_def split: option.splits)

lemma advanceIndex_fields [simp]:
  "emitted (advanceIndex w) = emitted w"
  "fsWritable (advanceIndex w) = fsWritable w"
  "clock (advanceIndex w) = clock w"
  "shouldStop (advanceIndex w) = shouldStop w"
  "nextHandle (advanceIndex w) = nextHandle w"
  "currentTimer (advanceIndex w) = currentTimer w"
  "timeouts (advanceIndex w) = timeouts w"
  "inflight (advanceIndex w) = inflight w"
  "switchRequests (advanceIndex w) = switchRequests w"
  "stateFile (advanceIndex w) = stateFile w"
  "state (advanceIndex w) = (state w)\<lparr>currentScheduleIndex := Some (nextIndex (state w))\<rparr>"
  by (simp_all add: advanceIndex_def)

section \<open>The branches of a re-evaluation\<close>

lemma effectiveIndex_less:
  "rotationSchedule s \<noteq> [] \<Longrightarrow> effectiveIndex s < length (rotationSchedule s)"
  by (simp add: effectiveIndex_def split: option.splits)

lemma processRotation_stopped: "shouldStop w \<Longrightarrow> processRotation sources r w = w"
  by (simp add: processRotation_def)

lemma processRotation_disabled:
  "\<not> shouldStop w \<Longrightarrow> \<not> rotationEnabled (state w) \<Longrightarrow>
   processRotation sources r w = handleFixedSource sources r (clearIndex (cancelCurrentTimer w))"
  by (simp add: processRotation_def Let_def clearIndex_def)

lemma processRotation_noSchedule:
  "\<not> shouldStop w \<Longrightarrow> rotationEnabled (state w) \<Longrightarrow> rotationSchedule (state w) = [] \<Longrightarrow>
   processRotation sources r w = cancelCurrentTimer w"
  by (simp add: processRotation_def Let_def)

lemma getAvailableSources_index [simp]:
  "getAvailableSources (s\<lparr>currentScheduleIndex := i\<rparr>) sources = getAvailableSources s sources"
  by (simp add: getAvailableSources_def Let_def)

lemma item_after_reset:
  assumes "rotationSchedule (state w) \<noteq> []"
  shows "rotationSchedule (state (resetIndex w))
           ! (indexNumber (currentScheduleIndex (state (resetIndex w)))
                mod length (rotationSchedule (state (resetIndex w))))
         = currentItem (state w)"
  using effectiveIndex_less[OF assms]
  by (simp add: resetIndex_state indexNumber_def currentItem_def)

lemma processRotation_alt:
  "processRotation sources r w =
     (if shouldStop w then w
      else
        let w1 = cancelCurrentTimer w in
        if \<not> rotationEnabled (state w1) then handleFixedSource sources r (clearIndex w1)
        else if length (rotationSchedule (state w1)) = 0 then w1
        else
          (let w2 = resetIndex w1;
               scheduleItem = rotationSchedule (state w2)
                   ! (indexNumber (currentScheduleIndex (state w2))
                        mod length (rotationSchedule (state w2)));
               availableSources = getAvailableSources (state w2) sources
           in case find (\<lambda>x. id_src x = cameraId scheduleItem) availableSources of
                Some source \<Rightarrow>
                  armTimer (durationSeconds scheduleItem * 1000)
                    (advanceIndex (saveState (\<lambda>x. x) False
                       (fst (switchToSource (cameraId scheduleItem) r w2))))
              | None \<Rightarrow> armTimer 5000 (saveState (\<lambda>x. x) False (advanceIndex w2))))"
  unfolding processRotation_def clearIndex_def resetIndex_def advanceIndex_def Let_def
  by (rule refl)

lemma processRotation_active:
  assumes "\<not> shouldStop w" "rotationEnabled (state w)" "rotationSchedule (state w) \<noteq> []"
  shows "processRotation sources r w =
     (if resolves (state w) sources (cameraId (currentItem (state w)))
      then armTimer (durationSeconds (currentItem (state w)) * 1000)
             (advanceIndex (saveState (\<lambda>x. x) False
                (fst (switchToSource (cameraId (currentItem (state w))) r
                        (resetIndex (cancelCurrentTimer w))))))
      else armTimer 5000
             (saveState (\<lambda>x. x) False (advanceIndex (resetIndex (cancelCurrentTimer w)))))"
proof -
  let ?w1 = "cancelCurrentTimer w"
  have ne: "rotationSchedule (state ?w1) \<noteq> []" using assms by simp
  have av: "getAvailableSources (state (resetIndex ?w1)) sources
              = getAvailableSources (state w) sources"
    by (simp add: resetIndex_state)
  have it: "rotationSchedule (state (resetIndex ?w1))
           ! (indexNumber (currentScheduleIndex (state (resetIndex ?w1)))
                mod length (rotationSchedule (state (resetIndex ?w1))))
         = currentItem (state w)"
    using item_after_reset[OF ne] by simp
  show ?thesis
    unfolding processRotation_alt Let_def it av resolves_def
    using assms by (simp split: option.splits)
qed

section \<open>Failed switches\<close>

lemma handleFixedSource_failed:
  "r \<noteq> ResponseOk \<Longrightarrow> state (handleFixedSource sources r w) = state w"
  by (simp add: handleFixedSource_def switchToSource_state split: option.splits)

lemma nextIndex_operational [simp]:
  "nextIndex (s\<lparr>currentSourceId := a, lastSwitchTime := b\<rparr>) = nextIndex s"
  by (simp add: nextIndex_def)

lemma processRotation_failed_fields:
  assumes "r \<noteq> ResponseOk"
  shows "currentSourceId (state (processRotation sources r w)) = currentSourceId (state w)"
    and "lastSwitchTime (state (processRotation sources r w)) = lastSwitchTime (state w)"
proof -
  have "currentSourceId (state (processRotation sources r w)) = currentSourceId (state w)
      \<and> lastSwitchTime (state (processRotation sources r w)) = lastSwitchTime (state w)"
  proof (cases "shouldStop w")
    case True
    then show ?thesis by (simp add: processRotation_stopped)
  next
    case False
    show ?thesis
    proof (cases "rotationEnabled (state w)")
      case off: False
      with False assms show ?thesis
        by (simp add: processRotation_disabled handleFixedSource_failed)
    next
      case on: True
      show ?thesis
      proof (cases "rotationSchedule (state w) = []")
        case True
        with False on show ?thesis by (simp add: processRotation_noSchedule)
      next
        case ne: False
        show ?thesis
          using assms
          by (simp add: processRotation_active[OF False on ne] switchToSource_state
              resetIndex_state)
      qed
    qed
  qed
  then show "currentSourceId (state (processRotation sources r w)) = currentSourceId (state w)"
    and "lastSwitchTime (state (processRotation sources r w)) = lastSwitchTime (state w)"
    by simp_all
qed

text \<open>
  Claim C9. A switch attempt that fails, by a response that is not ok or by an exception
  of the transport, leaves the state as it was, \<^verbatim>\<open>currentSourceId\<close> and
  \<^verbatim>\<open>lastSwitchTime\<close> included, and returns \<^verbatim>\<open>false\<close>; a whole re-evaluation whose switch
  fails leaves the two fields unchanged as well. So they change only on a successful
  switch.
\<close>

theorem failed_switch_leaves_operational_fields:
  "r \<noteq> ResponseOk \<Longrightarrow>
     state (fst (switchToSource i r w)) = state w
   \<and> \<not> snd (switchToSource i r w)
   \<and> currentSourceId (state (processRotation sources r w)) = currentSourceId (state w)
   \<and> lastSwitchTime (state (processRotation sources r w)) = lastSwitchTime (state w)"
  by (simp add: switchToSource_state switchToSource_result processRotation_failed_fields)

text \<open>A transport error in scenario B: source 3 stays recorded as the one on air.\<close>

theorem failed_switch_leaves_operational_fields_witness:
  "FetchThrew \<noteq> ResponseOk
   \<and> state (fst (switchToSource 1 FetchThrew (startWorld stateB))) = stateB
   \<and> \<not> snd (switchToSource 1 FetchThrew (startWorld stateB))
   \<and> currentSourceId (state (processRotation camerasB FetchThrew (startWorld stateB))) = Some 3
   \<and> lastSwitchTime (state (processRotation camerasB FetchThrew (startWorld stateB))) = None"
proof -
  have h: "FetchThrew \<noteq> ResponseOk" by simp
  from failed_switch_leaves_operational_fields[OF h, of 1 "startWorld stateB" camerasB]
  show ?thesis by (simp add: startWorld_def stateB_def defaultState_def)
qed

section \<open>Change notifications\<close>

lemma processRotation_emitted [simp]:
  "emitted (processRotation sources r w) = emitted w"
proof (cases "shouldStop w")
  case True
  then show ?thesis by (simp add: processRotation_stopped)
next
  case False
  show ?thesis
  proof (cases "rotationEnabled (state w)")
    case off: False
    with False show ?thesis by (simp add: processRotation_disabled)
  next
    case on: True
    show ?thesis
    proof (cases "rotationSchedule (state w) = []")
      case True
      with False on show ?thesis by (simp add: processRotation_noSchedule)
    next
      case ne: False
      show ?thesis by (simp add: processRotation_active[OF False on ne])
    qed
  qed
qed

lemma processRotation_fsWritable [simp]:
  "fsWritable (processRotation sources r w) = fsWritable w"
proof (cases "shouldStop w")
  case True
  then show ?thesis by (simp add: processRotation_stopped)
next
  case False
  show ?thesis
  proof (cases "rotationEnabled (state w)")
    case off: False
    with False show ?thesis by (simp add: processRotation_disabled)
  next
    case on: True
    show ?thesis
    proof (cases "rotationSchedule (state w) = []")
      case True
      with False on show ?thesis by (simp add: processRotation_noSchedule)
    next
      case ne: False
      show ?thesis by (simp add: processRotation_active[OF False on ne])
    qed
  qed
qed

lemma timerFired_quiet [simp]:
  "emitted (timerFired sources r h w) = emitted w"
  "fsWritable (timerFired sources r h w) = fsWritable w"
  by (simp_all add: timerFired_def clearTimeout_def)

lemma handleStateChange_quiet [simp]:
  "emitted (handleStateChange sources r w) = emitted w"
  "fsWritable (handleStateChange sources r w) = fsWritable w"
  by (simp_all add: handleStateChange_def)

lemma handleAPIRequest_emitted:
  "emitted (handleAPIRequest (handleStateChange sources r) c w)
     = (if fsWritable w then emitted w + 1 else emitted w)"
  by (simp add: handleAPIRequest_def saveState_def Let_def)

lemma handleAPIRequest_fsWritable [simp]:
  "fsWritable (handleAPIRequest (handleStateChange sources r) c w) = fsWritable w"
  by (simp add: handleAPIRequest_def saveState_def Let_def)

lemma perform_fsWritable [simp]: "fsWritable (perform sources a w) = fsWritable w"
  by (cases a) simp_all

lemma perform_emitted:
  "emitted (perform sources a w)
     = (if isConfigure a \<and> fsWritable w then emitted w + 1 else emitted w)"
  by (cases a) (simp_all add: handleAPIRequest_emitted)

lemma fold_perform_fsWritable [simp]:
  "fsWritable (fold (perform sources) as w) = fsWritable w"
  by (induction as arbitrary: w) simp_all

lemma fold_perform_emitted:
  "emitted (fold (perform sources) as w)
     = (if fsWritable w then emitted w + length (filter isConfigure as) else emitted w)"
  by (induction as arbitrary: w) (simp_all add: perform_emitted)

text \<open>
  With the write of the state file succeeding, a configuration call
  (\<^verbatim>\<open>PUT /api/state\<close> with any set of fields, \<^verbatim>\<open>PUT /api/rotation/schedule\<close>,
  \<^verbatim>\<open>PUT /api/rotation/cameras\<close>) emits exactly one change notification, however many
  fields it carried and whatever the re-evaluation it triggers does; a sequence of
  calls, operational ones interleaved, then emits as many notifications as it has
  configuration calls. With the write failing, the call emits none.
\<close>

theorem configuration_call_notifies_once_when_written:
  "(fsWritable w \<longrightarrow>
       emitted (handleAPIRequest (handleStateChange sources r) c w) = emitted w + 1
     \<and> emitted (fold (perform sources) as w) = emitted w + length (filter isConfigure as))
   \<and> (\<not> fsWritable w \<longrightarrow>
       emitted (handleAPIRequest (handleStateChange sources r) c w) = emitted w)"
  by (simp add: handleAPIRequest_emitted fold_perform_emitted)


text \<open>
  A two-field \<^verbatim>\<open>PUT /api/state\<close> on scenario A, two configuration calls among four
  actions, and the same request with the file system refusing the write.
\<close>

theorem configuration_call_notifies_once_when_written_witness:
  "fsWritable (startWorld stateA)
   \<and> emitted (handleAPIRequest (handleStateChange camerasA ResponseOk)
        (PutState (noFields\<lparr>p_rotationEnabled := Some False, p_fixedSourceId := Some (Some 2)\<rparr>))
        (startWorld stateA)) = 1
   \<and> emitted (fold (perform camerasA)
        [Configure (PutCameras [1]) ResponseOk, Fire 0 ResponseOk,
         Configure (PutSchedule scheduleA) ResponseNotOk, Switch 2 ResponseOk]
        (startWorld stateA)) = 2
   \<and> \<not> fsWritable ((startWorld stateA)\<lparr>fsWritable := False\<rparr>)
   \<and> emitted (handleAPIRequest (handleStateChange camerasA ResponseOk)
        (PutState (noFields\<lparr>p_rotationEnabled := Some False, p_fixedSourceId := Some (Some 2)\<rparr>))
        ((startWorld stateA)\<lparr>fsWritable := False\<rparr>)) = 0"
  using configuration_call_notifies_once_when_written[where w = "startWorld stateA"
      and sources = camerasA and r = ResponseOk
      and c = "PutState (noFields\<lparr>p_rotationEnabled := Some False,
                                   p_fixedSourceId := Some (Some 2)\<rparr>)"
      and as = "[Configure (PutCameras [1]) ResponseOk, Fire 0 ResponseOk,
                 Configure (PutSchedule scheduleA) ResponseNotOk, Switch 2 ResponseOk]"]
    configuration_call_notifies_once_when_written[
      where w = "(startWorld stateA)\<lparr>fsWritable := False\<rparr>"
      and sources = camerasA and r = ResponseOk
      and c = "PutState (noFields\<lparr>p_rotationEnabled := Some False,
                                   p_fixedSourceId := Some (Some 2)\<rparr>)"]
  by (simp add: startWorld_def)

text \<open>
  Claim C1. Every configuration call emits exactly one change notification, whatever the
  outcome of the write. The code does so when the write succeeds. When the write throws,
  the emit, which follows it in the same \<^verbatim>\<open>try\<close> block, is skipped: in scenario A
  before rotation is enabled, with the file system refusing the write, the
  \<^verbatim>\<open>PUT /api/state\<close> that enables rotation changes the state in memory and is
  answered with it, and emits nothing; no re-evaluation runs, no switch request is sent
  and no timer is armed, so the rotation does not start. The same request with the write
  succeeding emits one notification, and the rotation starts.
\<close>

theorem notification_skipped_when_write_fails:
  "rotationEnabled (state (handleAPIRequest (handleStateChange camerasA ResponseOk)
        enableRotation (idleA\<lparr>fsWritable := False\<rparr>)))
   \<and> emitted (handleAPIRequest (handleStateChange camerasA ResponseOk)
        enableRotation (idleA\<lparr>fsWritable := False\<rparr>)) = emitted idleA
   \<and> switchRequests (handleAPIRequest (handleStateChange camerasA ResponseOk)
        enableRotation (idleA\<lparr>fsWritable := False\<rparr>)) = []
   \<and> timeouts (handleAPIRequest (handleStateChange camerasA ResponseOk)
        enableRotation (idleA\<lparr>fsWritable := False\<rparr>)) = []
   \<and> emitted (handleAPIRequest (handleStateChange camerasA ResponseOk)
        enableRotation idleA) = emitted idleA + 1
   \<and> switchRequests (handleAPIRequest (handleStateChange camerasA ResponseOk)
        enableRotation idleA) = [1]
   \<and> timeouts (handleAPIRequest (handleStateChange camerasA ResponseOk)
        enableRotation idleA) = [(0, Some 60000)]"
  by code_simp

section \<open>Operational writes\<close>

lemma persisted_after_save:
  "fsWritable w \<Longrightarrow> persisted (saveState L False w)"
  by (simp add: persisted_def)


lemma persisted_armTimer [simp]: "persisted (armTimer ms w) = persisted w"
  by (simp add: persisted_def)

lemma stateFile_after_resolved:
  assumes "\<not> shouldStop w" "rotationEnabled (state w)" "rotationSchedule (state w) \<noteq> []"
    and "resolves (state w) sources (cameraId (currentItem (state w)))"
    and "fsWritable w"
  shows "stateFile (processRotation sources r w) =
           Some (Parsed (stringify ((state (processRotation sources r w))
                   \<lparr>currentScheduleIndex := Some (effectiveIndex (state w))\<rparr>)))"
  using assms(4,5)
  by (simp add: processRotation_active[OF assms(1,2,3)] switchToSource_state resetIndex_state
      stringify_def)





section \<open>Re-evaluation with rotation enabled\<close>

lemma nextIndex_at:
  "nextIndex (s\<lparr>currentScheduleIndex := Some e\<rparr>) = (e + 1) mod length (rotationSchedule s)"
  by (simp add: nextIndex_def indexNumber_def)

lemma timerFired_pending:
  "h \<in> fst ` set (timeouts w) \<Longrightarrow>
   timerFired sources r h w = processRotation sources r ((clearTimeout h w)\<lparr>currentTimer := None\<rparr>)"
  by (simp add: timerFired_def)

lemma resolved_fields:
  assumes "\<not> shouldStop w" "rotationEnabled (state w)" "rotationSchedule (state w) \<noteq> []"
    and "resolves (state w) sources (cameraId (currentItem (state w)))"
  shows "switchRequests (processRotation sources r w)
           = switchRequests w @ [cameraId (currentItem (state w))]"
    and "currentScheduleIndex (state (processRotation sources r w))
           = Some ((effectiveIndex (state w) + 1) mod length (rotationSchedule (state w)))"
    and "timeouts (processRotation sources r w)
           = timeouts (cancelCurrentTimer w)
               @ [(nextHandle w, keptDelay (durationSeconds (currentItem (state w)) * 1000))]"
    and "currentTimer (processRotation sources r w) = Some (nextHandle w)"
    and "state (processRotation sources r w) =
           (if r = ResponseOk
            then (state w)\<lparr>currentSourceId := Some (cameraId (currentItem (state w))),
                           lastSwitchTime := Some (clock w)\<rparr>
            else state w)
           \<lparr>currentScheduleIndex :=
               Some ((effectiveIndex (state w) + 1) mod length (rotationSchedule (state w)))\<rparr>"
  using assms(4)
  by (simp_all add: processRotation_active[OF assms(1,2,3)] switchToSource_state
      resetIndex_state nextIndex_def indexNumber_def)

lemma unresolved_fields:
  assumes "\<not> shouldStop w" "rotationEnabled (state w)" "rotationSchedule (state w) \<noteq> []"
    and "\<not> resolves (state w) sources (cameraId (currentItem (state w)))"
  shows "switchRequests (processRotation sources r w) = switchRequests w"
    and "timeouts (processRotation sources r w)
           = timeouts (cancelCurrentTimer w) @ [(nextHandle w, Some 5000)]"
    and "currentTimer (processRotation sources r w) = Some (nextHandle w)"
    and "state (processRotation sources r w) =
           (state w)\<lparr>currentScheduleIndex :=
               Some ((effectiveIndex (state w) + 1) mod length (rotationSchedule (state w)))\<rparr>"
    and "fsWritable w \<Longrightarrow> persisted (processRotation sources r w)"
  using assms(4)
  by (simp_all add: processRotation_active[OF assms(1,2,3)] resetIndex_state nextIndex_at
      persisted_after_save)

text \<open>
  Claim C6, as amended. In a re-evaluation with rotation enabled and a schedule, where
  the camera of the current item resolves and the switch succeeds: the switch request
  for that camera is sent, \<^verbatim>\<open>currentSourceId\<close> and \<^verbatim>\<open>lastSwitchTime\<close> become the camera and
  the current time, no notification is emitted, the index becomes the current index plus
  one modulo the schedule length, and one timer is armed, whose expiry runs the next
  re-evaluation; for a duration from 1 to 2147483 seconds, which is what the timer's
  32-bit delay holds, it runs for exactly \<^verbatim>\<open>durationSeconds\<close> times 1000 milliseconds.
  The state is written
  to the file before the index advances: with the file writable, the file holds the new
  state with the index of the item switched to, not the advanced one.
\<close>

theorem resolved_switch_success:
  assumes "\<not> shouldStop w" and "rotationEnabled (state w)"
    and "rotationSchedule (state w) \<noteq> []"
    and "resolves (state w) sources (cameraId (currentItem (state w)))"
    and "0 < durationSeconds (currentItem (state w))"
    and "durationSeconds (currentItem (state w)) \<le> 2147483"
  shows "switchRequests (processRotation sources ResponseOk w)
           = switchRequests w @ [cameraId (currentItem (state w))]
     \<and> currentSourceId (state (processRotation sources ResponseOk w))
           = Some (cameraId (currentItem (state w)))
     \<and> lastSwitchTime (state (processRotation sources ResponseOk w)) = Some (clock w)
     \<and> currentScheduleIndex (state (processRotation sources ResponseOk w))
           = Some ((effectiveIndex (state w) + 1) mod length (rotationSchedule (state w)))
     \<and> emitted (processRotation sources ResponseOk w) = emitted w
     \<and> timeouts (processRotation sources ResponseOk w)
           = timeouts (cancelCurrentTimer w)
               @ [(nextHandle w, Some (durationSeconds (currentItem (state w)) * 1000))]
     \<and> currentTimer (processRotation sources ResponseOk w) = Some (nextHandle w)
     \<and> timerFired sources r2 (nextHandle w) (processRotation sources ResponseOk w)
           = processRotation sources r2
               ((clearTimeout (nextHandle w) (processRotation sources ResponseOk w))
                  \<lparr>currentTimer := None\<rparr>)
     \<and> (fsWritable w \<longrightarrow>
          stateFile (processRotation sources ResponseOk w) =
            Some (Parsed (stringify ((state (processRotation sources ResponseOk w))
                    \<lparr>currentScheduleIndex := Some (effectiveIndex (state w))\<rparr>))))"
  using assms
  by (simp add: resolved_fields timerFired_pending stateFile_after_resolved keptDelay_seconds)

text \<open>
  Scenario A: the switch goes to camera 1, the index becomes 1, the timer is armed for
  60 s, and the file holds index 0.
\<close>

theorem resolved_switch_success_witness:
  "switchRequests (processRotation camerasA ResponseOk (startWorld stateA)) = [1]
   \<and> currentSourceId (state (processRotation camerasA ResponseOk (startWorld stateA)))
        = Some 1
   \<and> currentScheduleIndex (state (processRotation camerasA ResponseOk (startWorld stateA)))
        = Some 1
   \<and> timeouts (processRotation camerasA ResponseOk (startWorld stateA)) = [(0, Some 60000)]
   \<and> stateFile (processRotation camerasA ResponseOk (startWorld stateA)) =
        Some (Parsed (stringify ((state (processRotation camerasA ResponseOk
                                          (startWorld stateA)))
                \<lparr>currentScheduleIndex := Some 0\<rparr>)))"
proof -
  have a: "\<not> shouldStop (startWorld stateA)" "rotationEnabled (state (startWorld stateA))"
    "rotationSchedule (state (startWorld stateA)) \<noteq> []"
    by (simp_all add: startWorld_def stateA_def scheduleA_def)
  have r: "resolves (state (startWorld stateA)) camerasA
             (cameraId (currentItem (state (startWorld stateA))))"
    by code_simp
  have e: "effectiveIndex (state (startWorld stateA)) = 0"
    "currentItem (state (startWorld stateA)) = \<lparr>cameraId = 1, durationSeconds = 60\<rparr>"
    "length (rotationSchedule (state (startWorld stateA))) = 2"
    "cancelCurrentTimer (startWorld stateA) = startWorld stateA"
    "fsWritable (startWorld stateA)" "nextHandle (startWorld stateA) = 0"
    "switchRequests (startWorld stateA) = []" "timeouts (startWorld stateA) = []"
    by (simp_all add: startWorld_def stateA_def scheduleA_def defaultState_def
        effectiveIndex_def currentItem_def cancelCurrentTimer_def)
  have b: "0 < durationSeconds (currentItem (state (startWorld stateA)))"
    "durationSeconds (currentItem (state (startWorld stateA))) \<le> 2147483"
    unfolding e(2) by simp_all
  from resolved_switch_success[OF a r b] e show ?thesis by simp
qed

text \<open>
  Claim C6 as stated fails: in scenario A the file is written, and the index it holds
  after the re-evaluation is \<open>0\<close>, while the state holds the advanced index \<open>1\<close>.
\<close>

theorem advanced_index_not_in_file:
  "currentScheduleIndex (state (processRotation camerasA ResponseOk (startWorld stateA)))
     = Some 1
   \<and> (case stateFile (processRotation camerasA ResponseOk (startWorld stateA)) of
        Some (Parsed (JObj kvs)) \<Rightarrow> map_of kvs ''currentScheduleIndex'' = Some (JNum 0)
      | _ \<Rightarrow> False)"
  by code_simp

text \<open>
  Claim C5, as amended. In a re-evaluation with rotation enabled and a schedule, where
  the camera of the current item resolves and the switch fails, the scheduler goes on as
  after a success: \<^verbatim>\<open>processRotation\<close> does not read what \<^verbatim>\<open>switchToSource\<close> returns. The
  state, \<^verbatim>\<open>currentSourceId\<close> and \<^verbatim>\<open>lastSwitchTime\<close> included, changes in the index only;
  the index advances by one modulo the schedule length, as for a camera that does not
  resolve; no notification is emitted; and the one timer armed runs for the item's
  \<^verbatim>\<open>durationSeconds\<close>, not for 5 seconds, where that duration is from 1 to 2147483
  seconds, which is what the timer's 32-bit delay holds. The schedule is never aborted:
  the timer's expiry runs the next re-evaluation.
\<close>

theorem resolved_switch_failure:
  assumes "\<not> shouldStop w" and "rotationEnabled (state w)"
    and "rotationSchedule (state w) \<noteq> []"
    and "resolves (state w) sources (cameraId (currentItem (state w)))"
    and "r \<noteq> ResponseOk"
    and "0 < durationSeconds (currentItem (state w))"
    and "durationSeconds (currentItem (state w)) \<le> 2147483"
  shows "switchRequests (processRotation sources r w)
           = switchRequests w @ [cameraId (currentItem (state w))]
     \<and> state (processRotation sources r w)
           = (state w)\<lparr>currentScheduleIndex :=
                Some ((effectiveIndex (state w) + 1) mod length (rotationSchedule (state w)))\<rparr>
     \<and> emitted (processRotation sources r w) = emitted w
     \<and> timeouts (processRotation sources r w)
           = timeouts (cancelCurrentTimer w)
               @ [(nextHandle w, Some (durationSeconds (currentItem (state w)) * 1000))]
     \<and> currentTimer (processRotation sources r w) = Some (nextHandle w)
     \<and> timerFired sources r2 (nextHandle w) (processRotation sources r w)
           = processRotation sources r2
               ((clearTimeout (nextHandle w) (processRotation sources r w))
                  \<lparr>currentTimer := None\<rparr>)"
  using assms
  by (simp add: resolved_fields timerFired_pending keptDelay_seconds)

text \<open>Scenario A with the pipeline answering the switch request with an error status.\<close>

theorem resolved_switch_failure_witness:
  "ResponseNotOk \<noteq> ResponseOk
   \<and> switchRequests (processRotation camerasA ResponseNotOk (startWorld stateA)) = [1]
   \<and> state (processRotation camerasA ResponseNotOk (startWorld stateA))
        = stateA\<lparr>currentScheduleIndex := Some 1\<rparr>
   \<and> timeouts (processRotation camerasA ResponseNotOk (startWorld stateA)) = [(0, Some 60000)]
   \<and> currentTimer (processRotation camerasA ResponseNotOk (startWorld stateA)) = Some 0"
proof -
  have a: "\<not> shouldStop (startWorld stateA)" "rotationEnabled (state (startWorld stateA))"
    "rotationSchedule (state (startWorld stateA)) \<noteq> []"
    by (simp_all add: startWorld_def stateA_def scheduleA_def)
  have r: "resolves (state (startWorld stateA)) camerasA
             (cameraId (currentItem (state (startWorld stateA))))"
    by code_simp
  have n: "ResponseNotOk \<noteq> ResponseOk" by simp
  have e: "effectiveIndex (state (startWorld stateA)) = 0"
    "currentItem (state (startWorld stateA)) = \<lparr>cameraId = 1, durationSeconds = 60\<rparr>"
    "length (rotationSchedule (state (startWorld stateA))) = 2"
    "cancelCurrentTimer (startWorld stateA) = startWorld stateA"
    "nextHandle (startWorld stateA) = 0" "state (startWorld stateA) = stateA"
    "switchRequests (startWorld stateA) = []" "timeouts (startWorld stateA) = []"
    by (simp_all add: startWorld_def stateA_def scheduleA_def defaultState_def
        effectiveIndex_def currentItem_def cancelCurrentTimer_def)
  have b: "0 < durationSeconds (currentItem (state (startWorld stateA)))"
    "durationSeconds (currentItem (state (startWorld stateA))) \<le> 2147483"
    unfolding e(2) by simp_all
  from resolved_switch_failure[OF a r n b] e n show ?thesis by simp
qed

text \<open>
  Claim C5 as stated fails: in scenario A with the switch to camera 1 failing, the one
  timer armed runs for the item's 60 s, not for the 5 s of the retry.
\<close>

theorem failed_switch_waits_full_duration:
  "map snd (timeouts (processRotation camerasA ResponseNotOk (startWorld stateA))) = [Some 60000]
   \<and> map snd (timeouts (processRotation camerasA ResponseNotOk (startWorld stateA)))
        \<noteq> [Some 5000]"
  by code_simp

section \<open>Which cameras resolve\<close>

lemma resolves_iff:
  "resolves s sources cam \<longleftrightarrow>
     (\<exists>x \<in> set sources. id_src x = cam \<and> enabled x = Some True \<and> source_type x = ''srt''
        \<and> (selectedCameraIds s \<noteq> [] \<longrightarrow> cam \<in> set (selectedCameraIds s)))"
  by (auto simp add: resolves_def getAvailableSources_def Let_def find_None_iff)

text \<open>
  Claim C7, as amended. The camera of the current item resolves exactly when the source
  list holds a source with that id that is enabled, of type \<^verbatim>\<open>srt\<close>, and, when
  \<^verbatim>\<open>selectedCameraIds\<close> is not empty, listed in it; \<^verbatim>\<open>is_healthy\<close> is not read. When it
  does not resolve, no switch request is sent, the index advances by one modulo the
  schedule length and nothing else of the state changes, the state is written to the
  file (when writable), and the one timer armed runs for 5000 milliseconds.
\<close>

theorem camera_resolution:
  "(resolves s sources cam \<longleftrightarrow>
      (\<exists>x \<in> set sources. id_src x = cam \<and> enabled x = Some True \<and> source_type x = ''srt''
         \<and> (selectedCameraIds s \<noteq> [] \<longrightarrow> cam \<in> set (selectedCameraIds s))))
   \<and> (\<not> shouldStop w \<and> rotationEnabled (state w) \<and> rotationSchedule (state w) \<noteq> []
        \<and> \<not> resolves (state w) sources (cameraId (currentItem (state w)))
      \<longrightarrow> switchRequests (processRotation sources r w) = switchRequests w
        \<and> state (processRotation sources r w)
            = (state w)\<lparr>currentScheduleIndex :=
                 Some ((effectiveIndex (state w) + 1) mod length (rotationSchedule (state w)))\<rparr>
        \<and> (fsWritable w \<longrightarrow> persisted (processRotation sources r w))
        \<and> timeouts (processRotation sources r w)
            = timeouts (cancelCurrentTimer w) @ [(nextHandle w, Some 5000)]
        \<and> currentTimer (processRotation sources r w) = Some (nextHandle w))"
  using resolves_iff[of s sources cam]
  by (simp add: unresolved_fields)


text \<open>
  Scenario C (camera 9 disabled) and scenario D (cameras 1 and 3 selected, camera 2
  asked for).
\<close>

theorem camera_resolution_witness:
  "\<not> resolves (stateA\<lparr>selectedCameraIds := [1, 3]\<rparr>) camerasA 2
   \<and> resolves (stateA\<lparr>selectedCameraIds := [1, 3]\<rparr>) camerasA 1
   \<and> \<not> resolves stateC camerasC 9
   \<and> switchRequests (processRotation camerasC ResponseOk (startWorld stateC)) = []
   \<and> state (processRotation camerasC ResponseOk (startWorld stateC))
        = stateC\<lparr>currentScheduleIndex := Some 0\<rparr>
   \<and> persisted (processRotation camerasC ResponseOk (startWorld stateC))
   \<and> timeouts (processRotation camerasC ResponseOk (startWorld stateC)) = [(0, Some 5000)]"
proof -
  have c: "\<not> shouldStop (startWorld stateC)" "rotationEnabled (state (startWorld stateC))"
    "rotationSchedule (state (startWorld stateC)) \<noteq> []" "fsWritable (startWorld stateC)"
    by (simp_all add: startWorld_def stateC_def)
  have e: "effectiveIndex (state (startWorld stateC)) = 0"
    "currentItem (state (startWorld stateC)) = \<lparr>cameraId = 9, durationSeconds = 30\<rparr>"
    "length (rotationSchedule (state (startWorld stateC))) = 1"
    "cancelCurrentTimer (startWorld stateC) = startWorld stateC"
    "nextHandle (startWorld stateC) = 0" "state (startWorld stateC) = stateC"
    "switchRequests (startWorld stateC) = []" "timeouts (startWorld stateC) = []"
    by (simp_all add: startWorld_def stateC_def defaultState_def
        effectiveIndex_def currentItem_def cancelCurrentTimer_def)
  have l: "set camerasA = {camera 1 True True, camera 2 True True}"
    "set camerasC = {camera 9 False True}"
    by (simp_all add: camerasA_def camerasC_def)
  have d2: "\<not> resolves (stateA\<lparr>selectedCameraIds := [1, 3]\<rparr>) camerasA 2"
    using camera_resolution[where s = "stateA\<lparr>selectedCameraIds := [1, 3]\<rparr>"
        and sources = camerasA and cam = 2 and w = "startWorld stateC"] c
    by (simp add: l camera_def)
  have d1: "resolves (stateA\<lparr>selectedCameraIds := [1, 3]\<rparr>) camerasA 1"
    using camera_resolution[where s = "stateA\<lparr>selectedCameraIds := [1, 3]\<rparr>"
        and sources = camerasA and cam = 1 and w = "startWorld stateC"] c
    by (simp add: l camera_def)
  have n: "\<not> resolves stateC camerasC 9"
    using camera_resolution[where s = stateC and sources = camerasC and cam = 9
        and w = "startWorld stateC"] c
    by (simp add: l camera_def)
  from camera_resolution[where s = stateC and sources = camerasC and cam = 9
      and w = "startWorld stateC" and r = ResponseOk] c e n d1 d2
  show ?thesis by simp
qed

text \<open>
  Claim C7 as stated fails: a camera that is enabled and reported unhealthy resolves, and
  the scheduler switches to it for the full duration.
\<close>

theorem unhealthy_camera_resolves:
  "id_src (camerasUnhealthy ! 0) = 1
   \<and> is_healthy (camerasUnhealthy ! 0) = Some False
   \<and> resolves stateA camerasUnhealthy 1
   \<and> switchRequests (processRotation camerasUnhealthy ResponseOk (startWorld stateA)) = [1]
   \<and> map snd (timeouts (processRotation camerasUnhealthy ResponseOk (startWorld stateA)))
        = [Some 60000]"
  by code_simp

section \<open>Re-evaluation with rotation disabled\<close>

lemma cancel_under_discipline:
  "timerDiscipline w \<Longrightarrow> timeouts (cancelCurrentTimer w) = []"
  by (auto simp add: timerDiscipline_def cancelCurrentTimer_def clearTimeout_def
      split: option.splits)

lemma cancelCurrentTimer_timeouts_subset:
  "set (timeouts (cancelCurrentTimer w)) \<subseteq> set (timeouts w)"
  by (auto simp add: cancelCurrentTimer_def clearTimeout_def split: option.splits)

text \<open>
  With rotation disabled and \<^verbatim>\<open>fixedSourceId\<close> found in the source list as an enabled
  source, a re-evaluation (of a scheduler that has not been told to stop) sends one
  switch request, for the fixed source, when \<^verbatim>\<open>currentSourceId\<close> differs from it, and
  none when they are equal; the index is \<^verbatim>\<open>null\<close> afterwards; no notification is
  emitted; the current timer is cancelled and \<^verbatim>\<open>setTimeout\<close> is not called. Where the
  timer discipline holds before, no timeout is left pending.
\<close>

theorem fixed_source_reevaluation:
  assumes "\<not> shouldStop w" and "\<not> rotationEnabled (state w)"
    and "fixedSourceId (state w) = Some fid"
    and "find (\<lambda>x. id_src x = fid) sources = Some src" and "enabled src = Some True"
  shows "switchRequests (processRotation sources r w)
           = (if currentSourceId (state w) \<noteq> Some fid
              then switchRequests w @ [fid] else switchRequests w)
     \<and> currentScheduleIndex (state (processRotation sources r w)) = None
     \<and> (r = ResponseOk \<longrightarrow> currentSourceId (state (processRotation sources r w)) = Some fid)
     \<and> emitted (processRotation sources r w) = emitted w
     \<and> currentTimer (processRotation sources r w) = None
     \<and> nextHandle (processRotation sources r w) = nextHandle w
     \<and> timeouts (processRotation sources r w) = timeouts (cancelCurrentTimer w)
     \<and> (timerDiscipline w \<longrightarrow> timeouts (processRotation sources r w) = [])"
  using assms
  by (simp add: processRotation_disabled handleFixedSource_def switchToSource_state
      cancel_under_discipline)

text \<open>
  Scenario B, with the 60 s timer of an earlier rotation still pending: one switch to
  source 5, and nothing pending afterwards. And the same with source 5 already on air:
  no switch.
\<close>

theorem fixed_source_reevaluation_witness:
  "switchRequests (processRotation camerasB ResponseOk
       ((startWorld (stateB\<lparr>currentScheduleIndex := Some 1\<rparr>))
          \<lparr>timeouts := [(0, Some 60000)], currentTimer := Some 0, nextHandle := 1\<rparr>)) = [5]
   \<and> currentScheduleIndex (state (processRotation camerasB ResponseOk
       ((startWorld (stateB\<lparr>currentScheduleIndex := Some 1\<rparr>))
          \<lparr>timeouts := [(0, Some 60000)], currentTimer := Some 0, nextHandle := 1\<rparr>))) = None
   \<and> timeouts (processRotation camerasB ResponseOk
       ((startWorld (stateB\<lparr>currentScheduleIndex := Some 1\<rparr>))
          \<lparr>timeouts := [(0, Some 60000)], currentTimer := Some 0, nextHandle := 1\<rparr>)) = []
   \<and> switchRequests (processRotation camerasB ResponseOk
       (startWorld (stateB\<lparr>currentSourceId := Some 5\<rparr>))) = []"
proof -
  let ?w = "(startWorld (stateB\<lparr>currentScheduleIndex := Some 1\<rparr>))
              \<lparr>timeouts := [(0, Some 60000)], currentTimer := Some 0, nextHandle := 1\<rparr>"
  let ?v = "startWorld (stateB\<lparr>currentSourceId := Some 5\<rparr>)"
  have a: "\<not> shouldStop ?w" "\<not> rotationEnabled (state ?w)" "fixedSourceId (state ?w) = Some 5"
    by (simp_all add: startWorld_def stateB_def defaultState_def)
  have b: "\<not> shouldStop ?v" "\<not> rotationEnabled (state ?v)" "fixedSourceId (state ?v) = Some 5"
    by (simp_all add: startWorld_def stateB_def defaultState_def)
  have f: "find (\<lambda>x. id_src x = 5) camerasB = Some (camera 5 True True)"
    by (simp add: camerasB_def camera_def)
  have en: "enabled (camera 5 True True) = Some True"
    by (simp add: camera_def)
  have d: "timerDiscipline ?w" "currentSourceId (state ?w) = Some 3"
    "switchRequests ?w = []" "currentSourceId (state ?v) = Some 5" "switchRequests ?v = []"
    by (simp_all add: timerDiscipline_def startWorld_def stateB_def)
  have t: "timeouts (cancelCurrentTimer ?w) = []"
    by (simp add: cancelCurrentTimer_def clearTimeout_def startWorld_def)
  from fixed_source_reevaluation[OF a f en, of ResponseOk]
    fixed_source_reevaluation[OF b f en, of ResponseOk] d t
  show ?thesis by simp
qed

text \<open>
  Claim C8. With rotation disabled and the fixed source enabled, the re-evaluation
  switches to it exactly when another source is on air, clears the index, arms no timer,
  and the scheduler stays idle until the next configuration notification. The
  re-evaluation itself does all of that (theorem above); the scheduler is not idle
  afterwards when a timeout of an overlapped re-evaluation is pending, which
  \<^verbatim>\<open>currentTimer\<close> does not name and the re-evaluation cannot cancel. After the overlap
  of scenario A, a request that disables rotation with source 1 as the fixed source is
  served as the claim says, and the timeout of 120 s stays pending: the scheduler runs
  again when it expires, with no notification. And when that request arrives while the
  switch request of the timer's re-evaluation is in flight, source 1 is on air and no
  switch is made; the suspended call then puts camera 2 on air, sets the index and arms
  a timer, with rotation disabled and source 1 fixed.
\<close>

theorem stray_timer_after_fixed_source:
  "(case run camerasA fixedAfterOverlap runningA of
      Inl f \<Rightarrow> False
    | Inr w \<Rightarrow> \<not> rotationEnabled (state w) \<and> fixedSourceId (state w) = Some 1
               \<and> currentSourceId (state w) = Some 1
               \<and> currentScheduleIndex (state w) = None
               \<and> currentTimer w = None \<and> inflight w = []
               \<and> timeouts w = [(1, Some 120000)])
   \<and> (case run camerasA fixedUnderSwitch runningA of
        Inl f \<Rightarrow> False
      | Inr w \<Rightarrow> \<not> rotationEnabled (state w) \<and> fixedSourceId (state w) = Some 1
                 \<and> currentSourceId (state w) = Some 2
                 \<and> currentScheduleIndex (state w) = Some 1
                 \<and> inflight w = []
                 \<and> timeouts w = [(1, Some 120000)])"
  by code_simp

section \<open>The index invariant\<close>

lemma handleFixedSource_config [simp]:
  "rotationEnabled (state (handleFixedSource sources r w)) = rotationEnabled (state w)"
  "rotationSchedule (state (handleFixedSource sources r w)) = rotationSchedule (state w)"
  "currentScheduleIndex (state (handleFixedSource sources r w)) = currentScheduleIndex (state w)"
  by (simp_all add: handleFixedSource_def switchToSource_state split: option.splits)

lemma indexInvariant_operational [simp]:
  "indexInvariant (s\<lparr>currentSourceId := a, lastSwitchTime := b\<rparr>) = indexInvariant s"
  by (simp add: indexInvariant_def split: option.splits)

lemma processRotation_establishes:
  assumes "\<not> shouldStop w"
    and "rotationEnabled (state w) \<and> rotationSchedule (state w) = []
           \<longrightarrow> currentScheduleIndex (state w) = None"
  shows "indexInvariant (state (processRotation sources r w))"
proof (cases "rotationEnabled (state w)")
  case False
  with assms(1) show ?thesis
    by (simp add: processRotation_disabled indexInvariant_def)
next
  case on: True
  show ?thesis
  proof (cases "rotationSchedule (state w) = []")
    case True
    with assms on show ?thesis
      by (simp add: processRotation_noSchedule indexInvariant_def)
  next
    case ne: False
    then have pos: "0 < length (rotationSchedule (state w))" by simp
    show ?thesis
    proof (cases "resolves (state w) sources (cameraId (currentItem (state w)))")
      case True
      from resolved_fields(5)[OF assms(1) on ne True, of r] on ne pos
      show ?thesis by (simp add: indexInvariant_def)
    next
      case False
      from unresolved_fields(4)[OF assms(1) on ne False, of r] on ne pos
      show ?thesis by (simp add: indexInvariant_def)
    qed
  qed
qed

lemma processRotation_indexInvariant:
  assumes "indexInvariant (state w)"
  shows "indexInvariant (state (processRotation sources r w))"
proof (cases "shouldStop w")
  case True
  with assms show ?thesis by (simp add: processRotation_stopped)
next
  case False
  then show ?thesis
    using assms by (intro processRotation_establishes) (auto simp: indexInvariant_def)
qed

lemma replaceSchedule_empty:
  "currentScheduleIndex (replaceSchedule [] s) = None"
  by (simp add: replaceSchedule_def Let_def split: option.splits)

lemma replaceSchedule_fields [simp]:
  "rotationSchedule (replaceSchedule sch s) = sch"
  "rotationEnabled (replaceSchedule sch s) = rotationEnabled s"
  by (simp_all add: replaceSchedule_def Let_def split: option.splits)

lemma applyBody_schedule:
  "rotationSchedule (applyBody body s)
     = (case p_rotationSchedule body of None \<Rightarrow> rotationSchedule s | Some v \<Rightarrow> v)"
  by (simp add: applyBody_def Let_def split: option.splits)

lemma applyBody_index:
  "currentScheduleIndex (applyBody body s)
     = (case p_rotationSchedule body of
          None \<Rightarrow> currentScheduleIndex s
        | Some v \<Rightarrow> currentScheduleIndex (replaceSchedule v
             (s\<lparr>rotationSchedule := rotationSchedule s\<rparr>)))"
  by (simp add: applyBody_def Let_def replaceSchedule_def split: option.splits)

lemma applyCall_no_stale_index:
  assumes "indexInvariant s"
  shows "rotationSchedule (applyCall c s) = [] \<longrightarrow> currentScheduleIndex (applyCall c s) = None"
proof (cases c)
  case (PutState body)
  show ?thesis
  proof (cases "p_rotationSchedule body")
    case None
    with PutState assms show ?thesis
      by (auto simp add: applyBody_schedule applyBody_index indexInvariant_def)
  next
    case (Some v)
    with PutState show ?thesis
      by (auto simp add: applyBody_schedule applyBody_index replaceSchedule_empty)
  qed
next
  case (PutSchedule sch)
  then show ?thesis by (auto simp add: replaceSchedule_empty)
next
  case (PutCameras ids)
  with assms show ?thesis by (auto simp add: indexInvariant_def)
qed

lemma handleAPIRequest_state:
  "fsWritable w \<Longrightarrow>
   handleAPIRequest (handleStateChange sources r) c w =
     processRotation sources r
       (cancelCurrentTimer
          (w\<lparr>state := applyCall c (state w),
             stateFile := Some (Parsed (stringify (applyCall c (state w)))),
             emitted := emitted w + 1\<rparr>))"
  by (simp add: handleAPIRequest_def saveState_def Let_def handleStateChange_def)

lemma handleAPIRequest_indexInvariant:
  assumes "indexInvariant (state w)" "fsWritable w" "\<not> shouldStop w"
  shows "indexInvariant (state (handleAPIRequest (handleStateChange sources r) c w))"
  unfolding handleAPIRequest_state[OF assms(2)]
  using assms(3) applyCall_no_stale_index[OF assms(1), of c]
  by (intro processRotation_establishes) simp_all

lemma timerFired_indexInvariant:
  "indexInvariant (state w) \<Longrightarrow> indexInvariant (state (timerFired sources r h w))"
  by (simp add: timerFired_def processRotation_indexInvariant clearTimeout_def)


lemma processRotation_shouldStop [simp]:
  "shouldStop (processRotation sources r w) = shouldStop w"
proof (cases "shouldStop w")
  case True
  then show ?thesis by (simp add: processRotation_stopped)
next
  case False
  show ?thesis
  proof (cases "rotationEnabled (state w)")
    case off: False
    with False show ?thesis by (simp add: processRotation_disabled)
  next
    case on: True
    show ?thesis
    proof (cases "rotationSchedule (state w) = []")
      case True
      with False on show ?thesis by (simp add: processRotation_noSchedule)
    next
      case ne: False
      show ?thesis by (simp add: processRotation_active[OF False on ne])
    qed
  qed
qed

lemma perform_shouldStop [simp]: "shouldStop (perform sources a w) = shouldStop w"
proof (cases a)
  case (Configure c r)
  then show ?thesis
    by (simp add: handleAPIRequest_def saveState_def Let_def handleStateChange_def)
next
  case (Fire h r)
  then show ?thesis by (simp add: timerFired_def clearTimeout_def)
next
  case (Switch i r)
  then show ?thesis by simp
qed

lemma perform_indexInvariant:
  assumes "indexInvariant (state w)" "fsWritable w" "\<not> shouldStop w"
  shows "indexInvariant (state (perform sources a w))"
proof (cases a)
  case (Configure c r)
  with assms show ?thesis by (simp add: handleAPIRequest_indexInvariant)
next
  case (Fire h r)
  with assms show ?thesis by (simp add: timerFired_indexInvariant)
next
  case (Switch i r)
  with assms show ?thesis by (simp add: switchToSource_state)
qed

lemma fold_perform_indexInvariant:
  "indexInvariant (state w) \<Longrightarrow> fsWritable w \<Longrightarrow> \<not> shouldStop w \<Longrightarrow>
   indexInvariant (state (fold (perform sources) as w))"
  by (induction as arbitrary: w) (simp_all add: perform_indexInvariant)

text \<open>
  The defaults satisfy the invariant of \<^verbatim>\<open>currentScheduleIndex\<close> (\<^verbatim>\<open>null\<close> when rotation
  is disabled or the schedule is empty, and below the schedule length otherwise). For
  calls that do not overlap: from a state that satisfies it, the state satisfies it
  again after every re-evaluation, after every timer expiry, and after every
  configuration call together with the re-evaluation it triggers, when the write of the
  state file succeeds (so that the notification is emitted) and the scheduler is not
  stopping; hence after any sequence of such calls. \<^verbatim>\<open>PUT /api/state\<close> itself resets
  the index only when it replaces the schedule; the clearing on a disabled rotation and
  the setting on an enabled one are done by the re-evaluation.
\<close>

theorem index_invariant_kept:
  assumes "indexInvariant (state w)"
  shows "indexInvariant defaultState
     \<and> indexInvariant (state (processRotation sources r w))
     \<and> indexInvariant (state (timerFired sources r h w))
     \<and> (fsWritable w \<and> \<not> shouldStop w \<longrightarrow>
          indexInvariant (state (handleAPIRequest (handleStateChange sources r) c w))
        \<and> indexInvariant (state (fold (perform sources) as w)))"
  using assms
  by (simp add: processRotation_indexInvariant timerFired_indexInvariant
      handleAPIRequest_indexInvariant fold_perform_indexInvariant)
    (simp add: indexInvariant_def defaultState_def)

text \<open>
  Scenario A after its first re-evaluation (index 1 of 2): rotation is disabled by a
  \<^verbatim>\<open>PUT /api/state\<close>, and the index is \<^verbatim>\<open>null\<close> when the call is over; and the schedule is
  replaced by a shorter one in a sequence of calls.
\<close>

theorem index_invariant_kept_witness:
  "indexInvariant (state (processRotation camerasA ResponseOk (startWorld stateA)))
   \<and> currentScheduleIndex (state (processRotation camerasA ResponseOk (startWorld stateA)))
        = Some 1
   \<and> indexInvariant (state (handleAPIRequest (handleStateChange camerasA ResponseOk)
        (PutState (noFields\<lparr>p_rotationEnabled := Some False\<rparr>))
        (processRotation camerasA ResponseOk (startWorld stateA))))
   \<and> currentScheduleIndex (state (handleAPIRequest (handleStateChange camerasA ResponseOk)
        (PutState (noFields\<lparr>p_rotationEnabled := Some False\<rparr>))
        (processRotation camerasA ResponseOk (startWorld stateA)))) = None
   \<and> indexInvariant (state (fold (perform camerasA)
        [Fire 0 ResponseOk,
         Configure (PutSchedule [\<lparr>cameraId = 2, durationSeconds = 10\<rparr>]) ResponseOk,
         Configure (PutState (noFields\<lparr>p_rotationSchedule := Some []\<rparr>)) ResponseOk]
        (processRotation camerasA ResponseOk (startWorld stateA))))"
proof -
  let ?w = "processRotation camerasA ResponseOk (startWorld stateA)"
  have i: "indexInvariant (state ?w)" by code_simp
  have f: "fsWritable ?w" "\<not> shouldStop ?w" by (simp_all add: startWorld_def)
  have n: "currentScheduleIndex (state ?w) = Some 1"
    "currentScheduleIndex (state (handleAPIRequest (handleStateChange camerasA ResponseOk)
        (PutState (noFields\<lparr>p_rotationEnabled := Some False\<rparr>)) ?w)) = None"
    by code_simp+
  from index_invariant_kept[OF i, where sources = camerasA and r = ResponseOk
      and c = "PutState (noFields\<lparr>p_rotationEnabled := Some False\<rparr>)"
      and as = "[Fire 0 ResponseOk,
         Configure (PutSchedule [\<lparr>cameraId = 2, durationSeconds = 10\<rparr>]) ResponseOk,
         Configure (PutState (noFields\<lparr>p_rotationSchedule := Some []\<rparr>)) ResponseOk]"]
    i f n
  show ?thesis by simp
qed

text \<open>
  Claim C4. After every mutation of \<^verbatim>\<open>rotationEnabled\<close> or \<^verbatim>\<open>rotationSchedule\<close> the index
  is \<^verbatim>\<open>null\<close> when rotation is disabled or the schedule is empty, and below the schedule
  length otherwise. The code keeps this in the runs of the theorem above, and breaks it
  in two others. In scenario A after its first re-evaluation (index 1 of 2), a
  \<^verbatim>\<open>PUT /api/state\<close> that disables rotation leaves the index at \<open>1\<close> when the write of
  the state file fails: no notification is emitted, and the handler does not clear the
  index. And with the write succeeding, the same request arriving while the switch
  request of the timer's re-evaluation is in flight clears the index, and the suspended
  call then sets it to \<open>1\<close> again and arms a timer, with rotation disabled.
\<close>

theorem index_left_when_rotation_disabled:
  "rotationEnabled (state runningA)
   \<and> currentScheduleIndex (state runningA) = Some 1
   \<and> length (rotationSchedule (state runningA)) = 2
   \<and> \<not> rotationEnabled (state (handleAPIRequest (handleStateChange camerasA ResponseOk)
        disableRotation (runningA\<lparr>fsWritable := False\<rparr>)))
   \<and> currentScheduleIndex (state (handleAPIRequest (handleStateChange camerasA ResponseOk)
        disableRotation (runningA\<lparr>fsWritable := False\<rparr>))) = Some 1
   \<and> fsWritable runningA
   \<and> (case run camerasA disabledUnderSwitch runningA of
        Inl f \<Rightarrow> False
      | Inr w \<Rightarrow> \<not> rotationEnabled (state w) \<and> currentScheduleIndex (state w) = Some 1
                 \<and> timeouts w = [(1, Some 120000)] \<and> inflight w = [])"
  by code_simp

section \<open>The timer discipline\<close>

lemma discipline_after_cancel:
  "timerDiscipline w \<Longrightarrow> timerDiscipline (cancelCurrentTimer w)"
  by (simp add: timerDiscipline_def[of "cancelCurrentTimer w"] cancel_under_discipline)

lemma processRotation_timerDiscipline:
  assumes "timerDiscipline w"
  shows "timerDiscipline (processRotation sources r w)"
proof (cases "shouldStop w")
  case True
  with assms show ?thesis by (simp add: processRotation_stopped)
next
  case False
  note c = cancel_under_discipline[OF assms]
  show ?thesis
  proof (cases "rotationEnabled (state w)")
    case off: False
    with False c show ?thesis
      by (simp add: processRotation_disabled timerDiscipline_def)
  next
    case on: True
    show ?thesis
    proof (cases "rotationSchedule (state w) = []")
      case True
      with False on c show ?thesis
        by (simp add: processRotation_noSchedule timerDiscipline_def)
    next
      case ne: False
      show ?thesis
        using c by (simp add: processRotation_active[OF False on ne] timerDiscipline_def)
    qed
  qed
qed

lemma timerFired_timerDiscipline:
  assumes "timerDiscipline w"
  shows "timerDiscipline (timerFired sources r h w)"
proof (cases "h \<in> fst ` set (timeouts w)")
  case False
  with assms show ?thesis by (simp add: timerFired_def)
next
  case True
  with assms have "timerDiscipline ((clearTimeout h w)\<lparr>currentTimer := None\<rparr>)"
    by (auto simp add: timerDiscipline_def clearTimeout_def split: option.splits)
  with True show ?thesis
    by (simp add: timerFired_def processRotation_timerDiscipline)
qed

lemma handleAPIRequest_timerDiscipline:
  assumes "timerDiscipline w"
  shows "timerDiscipline (handleAPIRequest (handleStateChange sources r) c w)"
proof (cases "fsWritable w")
  case False
  with assms show ?thesis
    by (simp add: handleAPIRequest_def saveState_def timerDiscipline_def split: option.splits)
next
  case True
  have "timerDiscipline (cancelCurrentTimer
          (w\<lparr>state := applyCall c (state w),
             stateFile := Some (Parsed (stringify (applyCall c (state w)))),
             emitted := emitted w + 1\<rparr>))"
    using assms
    by (intro discipline_after_cancel) (simp add: timerDiscipline_def split: option.splits)
  then show ?thesis
    by (simp add: handleAPIRequest_state[OF True] processRotation_timerDiscipline)
qed

lemma perform_timerDiscipline:
  "timerDiscipline w \<Longrightarrow> timerDiscipline (perform sources a w)"
proof (cases a)
  case (Configure c r)
  assume "timerDiscipline w"
  with Configure show ?thesis by (simp add: handleAPIRequest_timerDiscipline)
next
  case (Fire h r)
  assume "timerDiscipline w"
  with Fire show ?thesis by (simp add: timerFired_timerDiscipline)
next
  case (Switch i r)
  assume "timerDiscipline w"
  with Switch show ?thesis by (simp add: timerDiscipline_def split: option.splits)
qed

lemma atomic_runs_keep_timerDiscipline:
  "timerDiscipline w \<Longrightarrow> timerDiscipline (fold (perform sources) as w)"
  by (induction as arbitrary: w) (simp_all add: perform_timerDiscipline)

lemma timerDiscipline_at_most_one:
  "timerDiscipline w \<Longrightarrow> length (timeouts w) \<le> 1"
  by (auto simp add: timerDiscipline_def split: option.splits dest: arg_cong[where f = length])

text \<open>
  The two halves of a call, run one right after the other, are the whole call: the event
  loop's model and the atomic one agree on calls that do not overlap, and the modulo-zero
  fault does not occur there.
\<close>

lemma begin_then_resume:
  "(case processRotation_begin sources w of
      (w1, None) \<Rightarrow> Inr w1
    | (w1, Some c) \<Rightarrow> processRotation_resume c r w1)
   = Inr (processRotation sources r w)"
proof (cases "shouldStop w")
  case True
  then show ?thesis by (simp add: processRotation_stopped processRotation_begin_def)
next
  case False
  show ?thesis
  proof (cases "rotationEnabled (state w)")
    case off: False
    have b: "processRotation_begin sources w
               = handleFixedSource_begin sources (clearIndex (cancelCurrentTimer w))"
      using False off by (simp add: processRotation_begin_def clearIndex_def Let_def)
    show ?thesis
      unfolding b processRotation_disabled[OF False off]
      by (simp add: handleFixedSource_begin_def handleFixedSource_def switchToSource_def
          split: option.splits)
  next
    case on: True
    show ?thesis
    proof (cases "rotationSchedule (state w) = []")
      case True
      with False on show ?thesis
        by (simp add: processRotation_noSchedule processRotation_begin_def Let_def)
    next
      case ne: False
      let ?w1 = "cancelCurrentTimer w"
      have ne1: "rotationSchedule (state ?w1) \<noteq> []" using ne by simp
      have it: "rotationSchedule (state (resetIndex ?w1))
           ! (indexNumber (currentScheduleIndex (state (resetIndex ?w1)))
                mod length (rotationSchedule (state (resetIndex ?w1))))
         = currentItem (state w)"
        using item_after_reset[OF ne1] by simp
      have av: "getAvailableSources (state (resetIndex ?w1)) sources
              = getAvailableSources (state w) sources"
        by (simp add: resetIndex_state)
      have b: "processRotation_begin sources w =
        (case find (\<lambda>x. id_src x = cameraId (currentItem (state w)))
                (getAvailableSources (state w) sources) of
           Some source \<Rightarrow>
             (sendSwitch (cameraId (currentItem (state w))) (resetIndex ?w1),
              Some (RotationSwitch (cameraId (currentItem (state w)))
                      (durationSeconds (currentItem (state w)))))
         | None \<Rightarrow>
             (armTimer 5000 (saveState (\<lambda>x. x) False (advanceIndex (resetIndex ?w1))), None))"
        unfolding processRotation_begin_def Let_def resetIndex_def[symmetric]
        unfolding it av advanceIndex_def[symmetric]
        using False on ne by simp
      show ?thesis
        unfolding b processRotation_active[OF False on ne] resolves_def
        using ne
        by (simp add: switchToSource_def finishSwitch_state resetIndex_state
            advanceIndex_def split: option.splits)
    qed
  qed
qed

text \<open>
  Claim C3. Every call of \<^verbatim>\<open>processRotation\<close> cancels the current timer first and arms
  at most one, and calls that do not overlap keep the discipline (lemmas
  \<open>atomic_runs_keep_timerDiscipline\<close> and \<open>timerDiscipline_at_most_one\<close>). Calls that
  overlap do not: from scenario A after its first re-evaluation, where the discipline
  holds, a configuration request that arrives while the switch request of a timer-driven
  re-evaluation is in flight starts a second re-evaluation; each of the two arms a timer
  when its answer arrives, and two timeouts are pending, of which \<^verbatim>\<open>currentTimer\<close> names
  only the second.
\<close>

theorem overlapping_reevaluations_arm_two_timers:
  "timerDiscipline runningA
   \<and> (case run camerasA overlap runningA of
        Inl f \<Rightarrow> False
      | Inr w \<Rightarrow> timeouts w = [(1, Some 120000), (2, Some 120000)] \<and> currentTimer w = Some 2
                 \<and> inflight w = [])"
  by code_simp

end
